theory Spec2Isabelle
  imports Main "HOL-Library.Code_Target_Nat"
begin

section \<open>Python string primitives used by the protocol codec\<close>

text \<open>
  The codec works on ASCII text (callsigns, digits, the fixed keywords), so a Python
  \<open>str\<close> is modelled as a \<open>string\<close> of ASCII characters. On ASCII,
  \<open>str.upper\<close> and \<open>str.lower\<close> map the 26 letters and nothing else,
  \<open>str.strip\<close> and the regular expression class \<open>\s\<close> see the characters
  with codes 9-13, 28-31 and 32 as whitespace, and \<open>\d\<close> is \<open>0-9\<close>.
  Python integers are unbounded and are modelled as \<open>int\<close>; the interpreter's
  configurable limit on the number of digits of an integer conversion is not modelled.
\<close>

definition is_space :: "char \<Rightarrow> bool" where
  "is_space c = (c \<in> set [CHR 0x09, CHR 0x0A, CHR 0x0B, CHR 0x0C, CHR 0x0D,
                          CHR 0x1C, CHR 0x1D, CHR 0x1E, CHR 0x1F, CHR '' ''])"

definition is_digit :: "char \<Rightarrow> bool" where
  "is_digit c = (c \<in> set ''0123456789'')"

definition upper_char :: "char \<Rightarrow> char" where
  "upper_char c =
     (case map_of (zip ''abcdefghijklmnopqrstuvwxyz'' ''ABCDEFGHIJKLMNOPQRSTUVWXYZ'') c of
        Some u \<Rightarrow> u | None \<Rightarrow> c)"

definition lower_char :: "char \<Rightarrow> char" where
  "lower_char c =
     (case map_of (zip ''ABCDEFGHIJKLMNOPQRSTUVWXYZ'' ''abcdefghijklmnopqrstuvwxyz'') c of
        Some l \<Rightarrow> l | None \<Rightarrow> c)"

definition py_upper :: "string \<Rightarrow> string" where
  "py_upper s = map upper_char s"

definition py_lower :: "string \<Rightarrow> string" where
  "py_lower s = map lower_char s"

definition py_strip :: "string \<Rightarrow> string" where
  "py_strip s = rev (dropWhile is_space (rev (dropWhile is_space s)))"

definition startswith :: "string \<Rightarrow> string \<Rightarrow> bool" where
  "startswith s p = (take (length p) s = p)"

text \<open>\<open>str(n)\<close> for an integer, and \<open>int(s)\<close> for a string of decimal digits.\<close>

definition digit_char :: "nat \<Rightarrow> char" where
  "digit_char d = ''0123456789'' ! d"

definition digit_val :: "char \<Rightarrow> nat" where
  "digit_val c = (case map_of (zip ''0123456789'' [0, 1, 2, 3, 4, 5, 6, 7, 8, 9]) c of
                    Some d \<Rightarrow> d | None \<Rightarrow> 0)"

fun str_nat :: "nat \<Rightarrow> string" where
  "str_nat n = (if n < 10 then [digit_char n] else str_nat (n div 10) @ [digit_char (n mod 10)])"

definition str_int :: "int \<Rightarrow> string" where
  "str_int i = (if i < 0 then CHR ''-'' # str_nat (nat (- i)) else str_nat (nat i))"

definition int_of_digits :: "string \<Rightarrow> int" where
  "int_of_digits s = int (foldl (\<lambda>a c. 10 * a + digit_val c) 0 s)"


section \<open>The over-the-air protocol (protocol.py)\<close>

datatype MsgType =
  NEW_PROPOSAL | ACCEPTANCE | MOVE | ACK | ERROR | RESYNC_REQUEST | RESYNC_OK | UNKNOWN

definition ERR_ILLEGAL_MOVE :: string where "ERR_ILLEGAL_MOVE = ''ERR01''"
definition ERR_BAD_MOVE_NUM :: string where "ERR_BAD_MOVE_NUM = ''ERR02''"
definition ERR_NO_SESSION :: string where "ERR_NO_SESSION = ''ERR03''"
definition ERR_PARSE :: string where "ERR_PARSE = ''ERR04''"
definition ERR_DESYNC :: string where "ERR_DESYNC = ''ERR05''"

definition ERR_DESCRIPTIONS :: "string \<Rightarrow> string option" where
  "ERR_DESCRIPTIONS = map_of
     [(''ERR01'', ''Illegal move''),
      (''ERR02'', ''Unexpected move number''),
      (''ERR03'', ''Not in active session''),
      (''ERR04'', ''Protocol parse error''),
      (''ERR05'', ''State desync detected'')]"

record OTAMessage =
  from_call :: string
  to_call :: string
  msg_type :: MsgType
  color :: "string option"
  timestamp :: "string option"
  move_num :: "int option"
  move :: "string option"
  error_code :: "string option"
  resync_move_num :: "int option"

text \<open>The dataclass constructor with its defaults: every optional field is \<open>None\<close>.\<close>

definition ota :: "string \<Rightarrow> string \<Rightarrow> MsgType \<Rightarrow> OTAMessage" where
  "ota f t k = \<lparr>from_call = f, to_call = t, msg_type = k, color = None, timestamp = None,
                move_num = None, move = None, error_code = None, resync_move_num = None\<rparr>"

subsection \<open>The payload patterns\<close>

text \<open>
  Each \<open>re.fullmatch\<close> of \<open>parse_message\<close> is a function that returns the
  captured groups when the whole payload matches the pattern, and \<open>None\<close> otherwise.
\<close>

definition is_WB :: "char \<Rightarrow> bool" where
  "is_WB c = (c = CHR ''W'' \<or> c = CHR ''B'')"

definition is_file :: "char \<Rightarrow> bool" where
  "is_file c = (c \<in> set ''ABCDEFGH'')"

definition is_rank :: "char \<Rightarrow> bool" where
  "is_rank c = (c \<in> set ''12345678'')"

definition is_promo :: "char \<Rightarrow> bool" where
  "is_promo c = (c \<in> set ''QRBN'')"

text \<open>\<open>NEW ([WB])\<close>\<close>

definition match_new :: "string \<Rightarrow> string option" where
  "match_new p =
     (if length p = 5 \<and> take 4 p = ''NEW '' \<and> is_WB (p ! 4) then Some [p ! 4] else None)"

text \<open>\<open>(\d{12}) ([WB])\<close>\<close>

definition match_acceptance :: "string \<Rightarrow> (string \<times> string) option" where
  "match_acceptance p =
     (if length p = 14 \<and> list_all is_digit (take 12 p) \<and> p ! 12 = CHR '' '' \<and> is_WB (p ! 13)
      then Some (take 12 p, [p ! 13]) else None)"

text \<open>
  \<open>(ERR0[1-5])\s*>?\<close>: the character \<open>>\<close> is not whitespace, so the whole payload
  matches exactly when what follows the code is whitespace and then nothing or one \<open>>\<close>.
\<close>

definition match_error :: "string \<Rightarrow> string option" where
  "match_error p =
     (if 5 \<le> length p \<and> take 4 p = ''ERR0'' \<and> p ! 4 \<in> set ''12345''
         \<and> dropWhile is_space (drop 5 p) \<in> {'''', ''>''}
      then Some (take 5 p) else None)"

text \<open>\<open>RS (\d{12}) MN=(\d+)\<close>\<close>

definition match_resync_request :: "string \<Rightarrow> (string \<times> int) option" where
  "match_resync_request p =
     (if 20 \<le> length p \<and> take 3 p = ''RS '' \<and> list_all is_digit (take 12 (drop 3 p))
         \<and> take 4 (drop 15 p) = '' MN='' \<and> list_all is_digit (drop 19 p)
      then Some (take 12 (drop 3 p), int_of_digits (drop 19 p)) else None)"

text \<open>\<open>OK RS (\d{12}) MN=(\d+)\<close>\<close>

definition match_resync_ok :: "string \<Rightarrow> (string \<times> int) option" where
  "match_resync_ok p =
     (if 23 \<le> length p \<and> take 6 p = ''OK RS '' \<and> list_all is_digit (take 12 (drop 6 p))
         \<and> take 4 (drop 18 p) = '' MN='' \<and> list_all is_digit (drop 22 p)
      then Some (take 12 (drop 6 p), int_of_digits (drop 22 p)) else None)"

text \<open>
  \<open>(\d+)([A-H][1-8][A-H][1-8][QRBN]?)\<close>: the second group starts with a letter, so the
  first group is the longest run of digits at the start of the payload.
\<close>

definition match_move :: "string \<Rightarrow> (int \<times> string) option" where
  "match_move p =
     (let ds = takeWhile is_digit p; r = dropWhile is_digit p
      in if ds \<noteq> [] \<and> (length r = 4 \<or> length r = 5 \<and> is_promo (r ! 4))
            \<and> is_file (r ! 0) \<and> is_rank (r ! 1) \<and> is_file (r ! 2) \<and> is_rank (r ! 3)
         then Some (int_of_digits ds, r) else None)"

subsection \<open>parse_message\<close>

definition classify :: "string \<Rightarrow> string \<Rightarrow> string \<Rightarrow> OTAMessage" where
  "classify remote local payload =
     (if payload = ''>'' \<or> payload = '''' then ota remote local ACK
      else case match_new payload of
        Some c \<Rightarrow> (ota remote local NEW_PROPOSAL)\<lparr>color := Some c\<rparr>
      | None \<Rightarrow>
      (case match_acceptance payload of
        Some (ts, c) \<Rightarrow> (ota remote local ACCEPTANCE)\<lparr>timestamp := Some ts, color := Some c\<rparr>
      | None \<Rightarrow>
      (case match_error payload of
        Some code \<Rightarrow> (ota remote local ERROR)\<lparr>error_code := Some code\<rparr>
      | None \<Rightarrow>
      (case match_resync_request payload of
        Some (ts, n) \<Rightarrow>
          (ota remote local RESYNC_REQUEST)\<lparr>timestamp := Some ts, resync_move_num := Some n\<rparr>
      | None \<Rightarrow>
      (case match_resync_ok payload of
        Some (ts, n) \<Rightarrow>
          (ota remote local RESYNC_OK)\<lparr>timestamp := Some ts, resync_move_num := Some n\<rparr>
      | None \<Rightarrow>
      (case match_move payload of
        Some (n, mv) \<Rightarrow> (ota remote local MOVE)\<lparr>move_num := Some n, move := Some (py_lower mv)\<rparr>
      | None \<Rightarrow> ota remote local UNKNOWN))))))"

definition parse_message :: "string \<Rightarrow> string \<Rightarrow> string \<Rightarrow> string \<Rightarrow> OTAMessage option" where
  "parse_message raw_text local_call remote_call from_call_arg =
     (let text = py_upper (py_strip raw_text);
          local = py_upper local_call;
          remote = py_upper remote_call;
          prefix = remote @ '' '' @ local @ '' JS8CHESS'';
          bare_prefix = local @ '' JS8CHESS''
      in if \<not> startswith text prefix \<and> \<not> startswith text bare_prefix then None
         else let text' = (if startswith text prefix then text else remote @ '' '' @ text)
              in if from_call_arg \<noteq> '''' \<and> py_upper from_call_arg \<noteq> remote then None
                 else Some (classify remote local (py_strip (drop (length prefix) text'))))"

subsection \<open>Formatters\<close>

definition fmt_new_proposal :: "string \<Rightarrow> string \<Rightarrow> string \<Rightarrow> string" where
  "fmt_new_proposal local remote c = remote @ '' '' @ local @ '' JS8CHESS NEW '' @ py_upper c"

definition fmt_acceptance :: "string \<Rightarrow> string \<Rightarrow> string \<Rightarrow> string \<Rightarrow> string" where
  "fmt_acceptance local remote ts c =
     local @ '' '' @ remote @ '' JS8CHESS '' @ ts @ '' '' @ py_upper c"

definition fmt_move :: "string \<Rightarrow> string \<Rightarrow> int \<Rightarrow> string \<Rightarrow> string" where
  "fmt_move local remote n move_uci =
     remote @ '' '' @ local @ '' JS8CHESS '' @ str_int n @ py_upper move_uci"

definition fmt_error :: "string \<Rightarrow> string \<Rightarrow> string \<Rightarrow> string" where
  "fmt_error local remote code = remote @ '' '' @ local @ '' JS8CHESS '' @ code @ '' >''"

definition fmt_resync_request :: "string \<Rightarrow> string \<Rightarrow> string \<Rightarrow> int \<Rightarrow> string" where
  "fmt_resync_request local remote ts n =
     remote @ '' '' @ local @ '' JS8CHESS RS '' @ ts @ '' MN='' @ str_int n"

definition fmt_resync_ok :: "string \<Rightarrow> string \<Rightarrow> string \<Rightarrow> int \<Rightarrow> string" where
  "fmt_resync_ok local remote ts n =
     local @ '' '' @ remote @ '' JS8CHESS OK RS '' @ ts @ '' MN='' @ str_int n"


text \<open>
  \<open>now_timestamp\<close> formats the current local time with \<open>%Y%m%d%H%M\<close>. The clock
  reading is an input of the model; \<open>%Y\<close> prints the year without padding, the other
  fields are padded to two digits.
\<close>

record datetime =
  year :: nat
  month :: nat
  day :: nat
  hour :: nat
  minute :: nat

definition pad2 :: "nat \<Rightarrow> string" where
  "pad2 n = (if n < 10 then CHR ''0'' # str_nat n else str_nat n)"

definition now_timestamp :: "datetime \<Rightarrow> string" where
  "now_timestamp dt =
     str_nat (year dt) @ pad2 (month dt) @ pad2 (day dt) @ pad2 (hour dt) @ pad2 (minute dt)"


section \<open>The chess rules library, as far as the session uses it\<close>

text \<open>
  The rules library is an external collaborator. The session uses four of its
  operations, which are parameters of the model: \<open>from_uci\<close> parses coordinate
  notation (\<open>None\<close> where the library raises \<open>InvalidMoveError\<close>),
  \<open>uci\<close> prints a move, \<open>legal\<close> says whether a move is among the legal moves
  of the position reached from the initial position by the given move stack, and
  \<open>stored\<close> is the move that \<open>Board.push\<close> puts on the move stack for a move
  played in that position: the library records a castling move in the form of the board's
  mode, so that in standard chess a castling written king-to-rook (\<open>e1h1\<close>) is
  recorded as the king's two-square move (\<open>e1g1\<close>).
  Every board of the program starts as \<open>chess.Board()\<close> and changes by \<open>push\<close>
  only, so a board is its move stack together with the side to move.
\<close>

record 'm chesslib =
  from_uci :: "string \<Rightarrow> 'm option"
  uci :: "'m \<Rightarrow> string"
  legal :: "'m list \<Rightarrow> 'm \<Rightarrow> bool"
  stored :: "'m list \<Rightarrow> 'm \<Rightarrow> 'm"

datatype py_error = TypeError | ValueError | OSError

definition WHITE :: bool where "WHITE = True"
definition BLACK :: bool where "BLACK = False"

record 'm Board =
  move_stack :: "'m list"
  turn :: bool

definition Board_init :: "'m Board" where
  "Board_init = \<lparr>move_stack = [], turn = WHITE\<rparr>"

definition push :: "'m chesslib \<Rightarrow> 'm Board \<Rightarrow> 'm \<Rightarrow> 'm Board" where
  "push lib b m =
     \<lparr>move_stack = move_stack b @ [stored lib (move_stack b) m], turn = (\<not> turn b)\<rparr>"

subsection \<open>The notation document\<close>

text \<open>
  A notation document is a set of headers and a tree of moves: each node lists its
  variations in the order they were added, the first one being the main line. A node of
  the document is named by the path of variation indices that leads to it from the root;
  \<open>add_variation\<close> appends a new child to the node and returns the child's path. The
  session's node pointer always names a node of its document.
\<close>

datatype 'm GameNode = GameNode (variations: "('m \<times> 'm GameNode) list")

record 'm Game =
  headers :: "(string \<times> string) list"
  root :: "'m GameNode"

fun mainline_moves :: "'m GameNode \<Rightarrow> 'm list" where
  "mainline_moves (GameNode []) = []"
| "mainline_moves (GameNode ((m, child) # vs)) = m # mainline_moves child"

fun node_at :: "nat list \<Rightarrow> 'm GameNode \<Rightarrow> 'm GameNode option" where
  "node_at [] n = Some n"
| "node_at (i # p) (GameNode vs) = (if i < length vs then node_at p (snd (vs ! i)) else None)"

fun add_at :: "nat list \<Rightarrow> 'm \<Rightarrow> 'm GameNode \<Rightarrow> 'm GameNode" where
  "add_at [] m (GameNode vs) = GameNode (vs @ [(m, GameNode [])])"
| "add_at (i # p) m (GameNode vs) =
     (if i < length vs then GameNode (vs[i := (fst (vs ! i), add_at p m (snd (vs ! i)))])
      else GameNode vs)"

definition add_variation :: "'m Game \<Rightarrow> nat list \<Rightarrow> 'm \<Rightarrow> 'm Game \<times> nat list" where
  "add_variation g p m =
     (case node_at p (root g) of
        None \<Rightarrow> (g, p)
      | Some n \<Rightarrow> (g\<lparr>root := add_at p m (root g)\<rparr>, p @ [length (variations n)]))"

fun hdr_set :: "string \<Rightarrow> string \<Rightarrow> (string \<times> string) list \<Rightarrow> (string \<times> string) list" where
  "hdr_set k v [] = [(k, v)]"
| "hdr_set k v ((k', v') # hs) = (if k' = k then (k, v) # hs else (k', v') # hdr_set k v hs)"

definition Game_init :: "'m Game" where
  "Game_init =
     \<lparr>headers = [(''Event'', ''?''), (''Site'', ''?''), (''Date'', ''????.??.??''),
                 (''Round'', ''?''), (''White'', ''?''), (''Black'', ''?''), (''Result'', ''*'')],
      root = GameNode []\<rparr>"

subsection \<open>The notation files on disk\<close>

text \<open>
  A file of the notation directory is unreadable (opening or reading it raises), empty
  (\<open>read_game\<close> returns \<open>None\<close>), text in which the parser finds neither
  a header nor a move, or the notation of a document. \<open>read_game\<close> does not fail
  on text it cannot parse: it records the errors in the document it builds, and returns a
  document with the default headers and no moves.
\<close>

datatype 'm pgn_file = Unreadable | Empty_file | Garbage | Parsed "'m Game"

definition read_game :: "'m pgn_file \<Rightarrow> py_error + 'm Game option" where
  "read_game f =
     (case f of
        Unreadable \<Rightarrow> Inl OSError
      | Empty_file \<Rightarrow> Inr None
      | Garbage \<Rightarrow> Inr (Some Game_init)
      | Parsed g \<Rightarrow> Inr (Some g))"

text \<open>
  The exporter writes every move in standard algebraic notation, and \<open>read_game\<close>
  parses it back in the form the library records: the document read from a file that was
  written for a document \<open>g\<close> is \<open>g\<close> with every move as \<open>stored\<close> gives it
  in its position.
\<close>

fun export_node :: "'m chesslib \<Rightarrow> 'm list \<Rightarrow> 'm GameNode \<Rightarrow> 'm GameNode" where
  "export_node lib st (GameNode vs) =
     GameNode (map (\<lambda>(m, child).
                      (stored lib st m, export_node lib (st @ [stored lib st m]) child)) vs)"

definition export :: "'m chesslib \<Rightarrow> 'm Game \<Rightarrow> 'm Game" where
  "export lib g = g\<lparr>root := export_node lib [] (root g)\<rparr>"

text \<open>
  Opening a file for writing succeeds, raises \<open>OSError\<close> (no permission, no
  directory) or raises \<open>ValueError\<close> (a path that cannot be encoded); which of
  these happens is a property of the file system, and a path with a NUL character always
  gives \<open>ValueError\<close>. When the file cannot be opened, the files stay as they
  were.
\<close>

datatype write_outcome = Write_ok | Write_OSError | Write_ValueError

record 'm filesystem =
  files :: "string \<Rightarrow> 'm pgn_file option"
  write_outcome :: write_outcome


section \<open>The game session (game.py)\<close>

definition PGN_DIR :: string where
  "PGN_DIR = ''~/.js8chess''"

record 'm GameSession =
  game_id :: string
  s_local_callsign :: string
  s_remote_callsign :: string
  local_color :: bool
  remote_color :: bool
  board :: "'m Board"
  pgn_game :: "'m Game"
  pgn_node :: "nat list"
  pgn_path :: string

definition GameSession_init :: "string \<Rightarrow> string \<Rightarrow> string \<Rightarrow> bool \<Rightarrow> 'm GameSession" where
  "GameSession_init gid local_call remote_call lcolor =
     (let white_call = (if lcolor = WHITE then local_call else remote_call);
          black_call = (if lcolor = WHITE then remote_call else local_call);
          date_str = take 4 gid @ ''.'' @ take 2 (drop 4 gid) @ ''.'' @ take 2 (drop 6 gid)
      in \<lparr>game_id = gid,
          s_local_callsign = py_upper local_call,
          s_remote_callsign = py_upper remote_call,
          local_color = lcolor,
          remote_color = (\<not> lcolor),
          board = Board_init,
          pgn_game = (Game_init :: 'm Game)\<lparr>headers :=
            hdr_set ''Result'' ''*'' (hdr_set ''Black'' (py_upper black_call)
              (hdr_set ''White'' (py_upper white_call) (hdr_set ''Date'' date_str
                (hdr_set ''Event'' ''JS8Chess Radio Game'' (headers (Game_init :: 'm Game))))))\<rparr>,
          pgn_node = [],
          pgn_path = PGN_DIR @ ''/'' @ py_upper remote_call @ ''-'' @ gid @ ''.pgn''\<rparr>)"

definition expected_move_num :: "'m GameSession \<Rightarrow> int" where
  "expected_move_num s = int (length (move_stack (board s))) + 1"

definition is_local_turn :: "'m GameSession \<Rightarrow> bool" where
  "is_local_turn s = (turn (board s) = local_color s)"

definition is_remote_turn :: "'m GameSession \<Rightarrow> bool" where
  "is_remote_turn s = (turn (board s) = remote_color s)"

definition move_list_uci :: "'m chesslib \<Rightarrow> 'm GameSession \<Rightarrow> string list" where
  "move_list_uci lib s = map (uci lib) (move_stack (board s))"

definition validate_move :: "'m chesslib \<Rightarrow> 'm GameSession \<Rightarrow> string \<Rightarrow> bool" where
  "validate_move lib s uci_move =
     (case from_uci lib uci_move of
        None \<Rightarrow> False
      | Some m \<Rightarrow> legal lib (move_stack (board s)) m)"

text \<open>
  \<open>_save_pgn\<close> catches \<open>OSError\<close> only: an \<open>OSError\<close> is logged and the
  files stay as they were, a \<open>ValueError\<close> escapes to the caller.
\<close>

definition save_pgn ::
  "'m chesslib \<Rightarrow> 'm filesystem \<Rightarrow> 'm GameSession \<Rightarrow> py_error + 'm filesystem" where
  "save_pgn lib fsys s =
     (if CHR 0x00 \<in> set (pgn_path s) \<or> write_outcome fsys = Write_ValueError
      then Inl ValueError
      else if write_outcome fsys = Write_OSError then Inr fsys
      else Inr (fsys\<lparr>files := (files fsys)(pgn_path s \<mapsto> Parsed (export lib (pgn_game s)))\<rparr>))"

text \<open>
  In \<open>apply_move\<close> the call of \<open>_save_pgn\<close> is inside the \<open>try\<close> whose handler
  catches \<open>ValueError\<close>: when the save raises it, the board has been pushed and the
  variation added, and \<open>apply_move\<close> returns false.
\<close>

definition apply_move ::
  "'m chesslib \<Rightarrow> string \<Rightarrow> 'm filesystem \<Rightarrow> 'm GameSession
     \<Rightarrow> bool \<times> 'm filesystem \<times> 'm GameSession" where
  "apply_move lib uci_move fsys s =
     (case from_uci lib uci_move of
        None \<Rightarrow> (False, fsys, s)
      | Some m \<Rightarrow>
          if \<not> legal lib (move_stack (board s)) m then (False, fsys, s)
          else let (g, n) = add_variation (pgn_game s) (pgn_node s) m;
                   s' = s\<lparr>board := push lib (board s) m, pgn_game := g, pgn_node := n\<rparr>
               in (case save_pgn lib fsys s' of
                     Inl err \<Rightarrow> (False, fsys, s')
                   | Inr fsys' \<Rightarrow> (True, fsys', s')))"

text \<open>
  The replay loop of \<open>restore_to_ply\<close>: it walks the main line of the document read
  from disk and stops at the first move for which \<open>applied >= target_ply\<close>, or when the
  main line ends.
\<close>

fun replay ::
  "'m chesslib \<Rightarrow> int \<Rightarrow> 'm list \<Rightarrow> 'm Board \<Rightarrow> nat list \<Rightarrow> nat
     \<Rightarrow> 'm Board \<times> nat list \<times> nat" where
  "replay lib target_ply [] b node applied = (b, node, applied)"
| "replay lib target_ply (m # ms) b node applied =
     (if int applied \<ge> target_ply then (b, node, applied)
      else replay lib target_ply ms (push lib b m) (node @ [0]) (applied + 1))"

definition restore_to_ply ::
  "'m chesslib \<Rightarrow> int \<Rightarrow> 'm filesystem \<Rightarrow> 'm GameSession \<Rightarrow> bool \<times> 'm GameSession" where
  "restore_to_ply lib target_ply fsys s =
     (case files fsys (pgn_path s) of
        None \<Rightarrow> (False, s)
      | Some f \<Rightarrow>
          (case read_game f of
             Inl err \<Rightarrow> (False, s)
           | Inr None \<Rightarrow> (False, s)
           | Inr (Some g) \<Rightarrow>
               (let (b, node, applied) =
                      replay lib target_ply (mainline_moves (root g)) Board_init [] 0
                in (True, s\<lparr>board := b, pgn_game := g, pgn_node := node\<rparr>))))"

text \<open>
  \<open>set_result\<close> changes the header and saves; a \<open>ValueError\<close> of the save escapes
  after the header has been changed.
\<close>

definition set_result ::
  "'m chesslib \<Rightarrow> string \<Rightarrow> 'm filesystem \<Rightarrow> 'm GameSession
     \<Rightarrow> py_error option \<times> 'm filesystem \<times> 'm GameSession" where
  "set_result lib r fsys s =
     (let s' = s\<lparr>pgn_game :=
                  (pgn_game s)\<lparr>headers := hdr_set ''Result'' r (headers (pgn_game s))\<rparr>\<rparr>
      in case save_pgn lib fsys s' of
           Inl err \<Rightarrow> (Some err, fsys, s')
         | Inr fsys' \<Rightarrow> (None, fsys', s'))"

section \<open>The controller (engine.py)\<close>

text \<open>
  The controller's state is the configuration, the engine state, the active session, the
  inbound queue, the front-end's position cache and the stop flag of the \<open>go\<close> worker.
  Its effects are made explicit: \<open>uci_lines\<close> is the list of lines written to the UCI
  output, \<open>sent\<close> the list of \<open>(to, text)\<close> pairs handed to the radio bridge, and
  \<open>fs\<close> the notation files. The session object is shared between the controller and
  the worker; the model keeps it in the \<open>game\<close> field and writes every change back.
\<close>

datatype EngineState = NO_GAME | PROPOSAL_SENT | AWAITING_PROPOSAL | GAME_ACTIVE | GAME_OVER

record Config =
  local_callsign :: string
  remote_callsign :: string
  js8_host :: string
  js8_port :: int
  ack_wait_seconds :: int
  move_response_wait_seconds :: int
  max_retries :: int
  auto_accept :: bool

datatype qitem = STOP_SENTINEL | Msg OTAMessage

record 'm engine =
  cfg :: Config
  state :: EngineState
  game :: "'m GameSession option"
  radio_queue :: "qitem list"
  last_position_moves :: "string list"
  go_stop_event :: bool
  uci_lines :: "string list"
  sent :: "(string \<times> string) list"
  fs :: "'m filesystem"

definition uci_out :: "'m engine \<Rightarrow> string \<Rightarrow> 'm engine" where
  "uci_out e line = e\<lparr>uci_lines := uci_lines e @ [line]\<rparr>"

definition bridge_send :: "'m engine \<Rightarrow> string \<Rightarrow> string \<Rightarrow> 'm engine" where
  "bridge_send e to text = e\<lparr>sent := sent e @ [(to, text)]\<rparr>"

text \<open>How an f-string prints an optional string.\<close>

definition fstr :: "string option \<Rightarrow> string" where
  "fstr x = (case x of None \<Rightarrow> ''None'' | Some s \<Rightarrow> s)"

text \<open>The dash of the "Game started" and "Game accepted" lines, in UTF-8.\<close>

definition em_dash :: string where
  "em_dash = [CHR 0xE2, CHR 0x80, CHR 0x94]"

definition send_error :: "'m engine \<Rightarrow> string \<Rightarrow> 'm engine" where
  "send_error e code =
     (let text = fmt_error (local_callsign (cfg e)) (remote_callsign (cfg e)) code;
          desc = (case ERR_DESCRIPTIONS code of None \<Rightarrow> [] | Some d \<Rightarrow> d);
          e1 = uci_out e (''info string TX error '' @ code @ '': '' @ desc)
      in bridge_send e1 (remote_callsign (cfg e)) text)"

subsection \<open>Negotiation and resync handlers\<close>

definition handle_new_proposal :: "datetime \<Rightarrow> 'm engine \<Rightarrow> OTAMessage \<Rightarrow> 'm engine" where
  "handle_new_proposal now e msg =
     (if state e = GAME_ACTIVE then e
      else
        let e1 = e\<lparr>state := AWAITING_PROPOSAL\<rparr>
        in if \<not> auto_accept (cfg e1) then
             (uci_out e1 (''info string Game proposal from '' @ from_call msg
                          @ '' ignored (auto_accept is false in config)''))\<lparr>state := NO_GAME\<rparr>
           else
             let ts = now_timestamp now;
                 remote_color_str = color msg;
                 lcolor = (if remote_color_str = Some ''W'' then BLACK else WHITE);
                 local_color_str = (if remote_color_str = Some ''W'' then ''B'' else ''W'');
                 acceptance = fmt_acceptance (local_callsign (cfg e1)) (remote_callsign (cfg e1))
                                ts local_color_str;
                 e2 = uci_out e1 (''info string TX acceptance: '' @ acceptance);
                 e3 = bridge_send e2 (remote_callsign (cfg e2)) acceptance;
                 e4 = e3\<lparr>game := Some (GameSession_init ts (local_callsign (cfg e3))
                                          (remote_callsign (cfg e3)) lcolor),
                         state := GAME_ACTIVE,
                         last_position_moves := []\<rparr>
             in uci_out e4 (''info string Game started '' @ em_dash @ '' ID: '' @ ts
                            @ '', local: '' @ local_color_str
                            @ '', remote: '' @ fstr remote_color_str))"

text \<open>
  An acceptance without a timestamp does not come out of \<open>parse_message\<close>; creating
  the session from it would raise \<open>TypeError\<close> before anything is assigned.
\<close>

definition handle_acceptance :: "'m engine \<Rightarrow> OTAMessage \<Rightarrow> py_error + 'm engine" where
  "handle_acceptance e msg =
     (if state e \<noteq> PROPOSAL_SENT then Inr e
      else case timestamp msg of
        None \<Rightarrow> Inl TypeError
      | Some ts \<Rightarrow>
          let remote_color_str = color msg;
              lcolor = (if remote_color_str = Some ''B'' then WHITE else BLACK);
              local_color_str = (if remote_color_str = Some ''B'' then ''W'' else ''B'');
              e1 = e\<lparr>game := Some (GameSession_init ts (local_callsign (cfg e))
                                      (remote_callsign (cfg e)) lcolor),
                     state := GAME_ACTIVE,
                     last_position_moves := []\<rparr>
          in Inr (uci_out e1 (''info string Game accepted '' @ em_dash @ '' ID: '' @ ts
                              @ '', local: '' @ local_color_str
                              @ '', remote: '' @ fstr remote_color_str)))"

text \<open>
  A resync request without a target ordinal does not come out of \<open>parse_message\<close>;
  \<open>msg.resync_move_num - 1\<close> would raise \<open>TypeError\<close> on it.
\<close>

definition handle_resync_request ::
  "'m chesslib \<Rightarrow> 'm engine \<Rightarrow> OTAMessage \<Rightarrow> py_error + 'm engine" where
  "handle_resync_request lib e msg =
     (case game e of
        None \<Rightarrow> Inr (send_error e ERR_NO_SESSION)
      | Some g \<Rightarrow>
          if timestamp msg \<noteq> Some (game_id g) then Inr (send_error e ERR_DESYNC)
          else (case resync_move_num msg of
            None \<Rightarrow> Inl TypeError
          | Some n \<Rightarrow>
              (let target_ply = n - 1
               in case restore_to_ply lib target_ply (fs e) g of
                 (ok, g') \<Rightarrow>
                   let e1 = e\<lparr>game := Some g'\<rparr>
                   in if \<not> ok then Inr (send_error e1 ERR_DESYNC)
                      else
                        let response = fmt_resync_ok (local_callsign (cfg e1))
                                         (remote_callsign (cfg e1)) (game_id g') n;
                            e2 = uci_out e1 (''info string TX resync OK: '' @ response)
                        in Inr (bridge_send e2 (remote_callsign (cfg e2)) response))))"

definition send_new_proposal :: "'m engine \<Rightarrow> string \<Rightarrow> 'm engine" where
  "send_new_proposal e c =
     (if state e = GAME_ACTIVE then e
      else
        let e1 = e\<lparr>state := PROPOSAL_SENT\<rparr>;
            text = fmt_new_proposal (local_callsign (cfg e1)) (remote_callsign (cfg e1)) c;
            e2 = uci_out e1 (''info string TX new proposal: '' @ text)
        in bridge_send e2 (remote_callsign (cfg e2)) text)"

subsection \<open>The radio callback\<close>

text \<open>
  The bridge calls \<open>on_radio_message\<close> for every directed message, with the clock
  reading of that moment; an exception raised by the callback is logged by the bridge and
  dropped, and both handlers that can raise do so before they change anything.
\<close>

definition on_radio_message ::
  "'m chesslib \<Rightarrow> datetime \<Rightarrow> 'm engine \<Rightarrow> string \<Rightarrow> string \<Rightarrow> string \<Rightarrow> 'm engine" where
  "on_radio_message lib now e from_c to_c text =
     (case parse_message text (local_callsign (cfg e)) (remote_callsign (cfg e)) from_c of
        None \<Rightarrow> e
      | Some msg \<Rightarrow>
          if msg_type msg = NEW_PROPOSAL then handle_new_proposal now e msg
          else if msg_type msg = ACCEPTANCE then
            (case handle_acceptance e msg of Inl err \<Rightarrow> e | Inr e' \<Rightarrow> e')
          else if state e = GAME_ACTIVE then e\<lparr>radio_queue := radio_queue e @ [Msg msg]\<rparr>
          else if msg_type msg = RESYNC_REQUEST then
            (case handle_resync_request lib e msg of Inl err \<Rightarrow> e | Inr e' \<Rightarrow> e')
          else e)"

subsection \<open>The position command\<close>

fun index_of :: "'a \<Rightarrow> 'a list \<Rightarrow> nat" where
  "index_of x [] = 0"
| "index_of x (y # ys) = (if x = y then 0 else Suc (index_of x ys))"

definition handle_position :: "'m engine \<Rightarrow> string list \<Rightarrow> 'm engine" where
  "handle_position e tokens =
     (if tokens = [] then e
      else
        let moves = (if ''moves'' \<in> set tokens
                     then map py_lower (drop (index_of ''moves'' tokens + 1) tokens) else [])
        in e\<lparr>last_position_moves := moves\<rparr>)"

subsection \<open>Processing one inbound message in the go worker\<close>

text \<open>How an f-string prints an optional integer.\<close>

definition fint :: "int option \<Rightarrow> string" where
  "fint x = (case x of None \<Rightarrow> ''None'' | Some n \<Rightarrow> str_int n)"

text \<open>
  The result of \<open>process_radio_item\<close> is the controller afterwards and the returned
  move, or the exception that escapes: a Move message without a move does not come out of
  \<open>parse_message\<close>, and validating it would raise \<open>TypeError\<close>.
\<close>

definition process_radio_item ::
  "'m chesslib \<Rightarrow> 'm engine \<Rightarrow> OTAMessage \<Rightarrow> py_error + ('m engine \<times> string option)" where
  "process_radio_item lib e msg =
     (if msg_type msg = ACK then Inr (e, None)
      else if msg_type msg = MOVE then
        (case game e of
           None \<Rightarrow> Inr (send_error e ERR_NO_SESSION, None)
         | Some g \<Rightarrow>
             if move_num msg \<noteq> Some (expected_move_num g)
             then Inr (send_error e ERR_BAD_MOVE_NUM, None)
             else (case move msg of
                None \<Rightarrow> Inl TypeError
              | Some mv \<Rightarrow>
                  if \<not> validate_move lib g mv then Inr (send_error e ERR_ILLEGAL_MOVE, None)
                  else (case apply_move lib mv (fs e) g of
                     (ok, fs', g') \<Rightarrow>
                       let e1 = e\<lparr>game := Some g', fs := fs'\<rparr>;
                           e2 = uci_out e1 (''info string RX move: '' @ fint (move_num msg)
                                            @ py_upper mv)
                       in Inr (e2, Some mv))))
      else if msg_type msg = ERROR then
        Inr (uci_out e (''info string Remote sent error: '' @ fstr (error_code msg)), None)
      else if msg_type msg = RESYNC_REQUEST then
        (case handle_resync_request lib e msg of
           Inl err \<Rightarrow> Inl err
         | Inr e' \<Rightarrow> Inr (e', None))
      else if msg_type msg = RESYNC_OK then Inr (e, None)
      else Inr (e, None))"

subsection \<open>Retransmission\<close>

definition retransmit_last_local_move :: "'m chesslib \<Rightarrow> 'm engine \<Rightarrow> 'm engine" where
  "retransmit_last_local_move lib e =
     (case game e of
        None \<Rightarrow> e
      | Some g \<Rightarrow>
          let move_list = move_list_uci lib g
          in if move_list = [] then e
             else
               let last_local_ply = expected_move_num g - 1
               in if last_local_ply < 1 \<or> last_local_ply > int (length move_list) then e
                  else
                    let last_move = move_list ! nat (last_local_ply - 1);
                        ota_text = fmt_move (local_callsign (cfg e)) (remote_callsign (cfg e))
                                     last_local_ply last_move;
                        e1 = uci_out e (''info string RETRY TX: '' @ ota_text)
                    in bridge_send e1 (remote_callsign (cfg e1)) ota_text)"

subsection \<open>Waiting for the remote move\<close>

text \<open>
  The worker blocks on the inbound queue while other threads run. What the other threads
  and the clock do is a list of events: the bridge delivers a directed message
  (\<open>Rx from to text now\<close>, which runs the radio callback), a poll of the empty queue
  times out (\<open>Timeout\<close>), or the front-end sends \<open>stop\<close> (\<open>Stop\<close>). The loop
  takes an item from the queue whenever there is one and otherwise consumes the next
  event. When the events are used up and nothing has made the loop return, the worker is
  still blocked (\<open>Blocked\<close>). The loop also returns the events it has not consumed.

  The waiting time is a whole number of seconds (the configuration holds integers, and
  the loop subtracts 5.0 from it). \<open>Queue.get\<close> raises \<open>ValueError\<close> on a negative
  timeout.
\<close>

datatype event = Rx string string string datetime | Timeout | Stop

datatype wait_result = Blocked | Returned "string option" | Raised py_error

fun await_loop ::
  "'m chesslib \<Rightarrow> int option \<Rightarrow> 'm engine \<Rightarrow> int \<Rightarrow> int \<Rightarrow> event list
     \<Rightarrow> 'm engine \<times> wait_result \<times> event list" where
  "await_loop lib timeout e wait retries_left [] =
     (if go_stop_event e then (e, Returned None, [])
      else if wait < 0 then (e, Raised ValueError, [])
      else case radio_queue e of
        [] \<Rightarrow> (e, Blocked, [])
      | STOP_SENTINEL # q \<Rightarrow> (e\<lparr>radio_queue := q\<rparr>, Returned None, [])
      | Msg msg # q \<Rightarrow>
          (case process_radio_item lib (e\<lparr>radio_queue := q\<rparr>) msg of
             Inl err \<Rightarrow> (e\<lparr>radio_queue := q\<rparr>, Raised err, [])
           | Inr (e', r) \<Rightarrow> (e', Returned r, [])))"
| "await_loop lib timeout e wait retries_left (ev # tr) =
     (if go_stop_event e then (e, Returned None, ev # tr)
      else if wait < 0 then (e, Raised ValueError, ev # tr)
      else case radio_queue e of
        STOP_SENTINEL # q \<Rightarrow> (e\<lparr>radio_queue := q\<rparr>, Returned None, ev # tr)
      | Msg msg # q \<Rightarrow>
          (case process_radio_item lib (e\<lparr>radio_queue := q\<rparr>) msg of
             Inl err \<Rightarrow> (e\<lparr>radio_queue := q\<rparr>, Raised err, ev # tr)
           | Inr (e', r) \<Rightarrow> (e', Returned r, ev # tr))
      | [] \<Rightarrow>
          (case ev of
             Rx f t x now \<Rightarrow>
               await_loop lib timeout (on_radio_message lib now e f t x) wait retries_left tr
           | Stop \<Rightarrow>
               await_loop lib timeout (e\<lparr>go_stop_event := True\<rparr>) wait retries_left tr
           | Timeout \<Rightarrow>
               if go_stop_event e then (e, Returned None, tr)
               else
                 let wait' = wait - 5
                 in if timeout = None \<and> wait' \<le> 0 then
                      (if retries_left > 0 then
                         await_loop lib timeout (retransmit_last_local_move lib e)
                           (move_response_wait_seconds (cfg e)) (retries_left - 1) tr
                       else
                         (uci_out e ''info string ERROR: no response after max retries'',
                          Returned None, tr))
                    else await_loop lib timeout e wait' retries_left tr))"

definition await_radio_move ::
  "'m chesslib \<Rightarrow> int option \<Rightarrow> 'm engine \<Rightarrow> event list
     \<Rightarrow> 'm engine \<times> wait_result \<times> event list" where
  "await_radio_move lib timeout e trace =
     (let wait = (case timeout of None \<Rightarrow> move_response_wait_seconds (cfg e) | Some t \<Rightarrow> t);
          retries_left = max_retries (cfg e)
      in await_loop lib timeout e wait retries_left trace)"

subsection \<open>The go worker\<close>

text \<open>
  \<open>apply_and_transmit_local_move\<close> works on the session it is given, which is the
  controller's session. The loop around \<open>bridge.send\<close> runs over
  \<open>range(1, max_retries + 1)\<close> and leaves after the first round, so the move is sent
  once when \<open>max_retries\<close> is at least 1 and not at all otherwise.
\<close>

definition apply_and_transmit_local_move ::
  "'m chesslib \<Rightarrow> 'm engine \<Rightarrow> 'm GameSession \<Rightarrow> string \<Rightarrow> 'm engine \<times> 'm GameSession \<times> bool" where
  "apply_and_transmit_local_move lib e g uci_move =
     (if \<not> validate_move lib g uci_move then
        (uci_out e (''info string ERROR: invalid local move '' @ uci_move), g, False)
      else
        let n = expected_move_num g
        in case apply_move lib uci_move (fs e) g of
          (ok, fs', g') \<Rightarrow>
            let e1 = e\<lparr>game := Some g', fs := fs'\<rparr>
            in if \<not> ok then (e1, g', False)
               else
                 let ota_text = fmt_move (local_callsign (cfg e1)) (remote_callsign (cfg e1))
                                  n uci_move;
                     e2 = uci_out e1 (''info string TX: '' @ ota_text);
                     e3 = (if 1 \<le> max_retries (cfg e2)
                           then bridge_send e2 (remote_callsign (cfg e2)) ota_text else e2)
                 in (e3, g', True))"

fun transmit_new_moves ::
  "'m chesslib \<Rightarrow> 'm engine \<Rightarrow> 'm GameSession \<Rightarrow> string list \<Rightarrow> 'm engine \<times> bool" where
  "transmit_new_moves lib e g [] = (e, True)"
| "transmit_new_moves lib e g (uci_move # rest) =
     (case apply_and_transmit_local_move lib e g uci_move of
        (e', g', ok) \<Rightarrow> if \<not> ok then (e', False) else transmit_new_moves lib e' g' rest)"

text \<open>
  The worker ends (\<open>Done\<close>), is still blocked in a wait when the events are used up
  (\<open>Waiting\<close>), or dies of an exception (\<open>Crashed\<close>).
\<close>

datatype go_result = Done | Waiting | Crashed py_error

text \<open>The last part of the worker: "Await remote's reply".\<close>

definition go_await_reply ::
  "'m chesslib \<Rightarrow> 'm engine \<Rightarrow> event list \<Rightarrow> 'm engine \<times> go_result" where
  "go_await_reply lib e trace =
     (if game e = None \<or> state e \<noteq> GAME_ACTIVE then (uci_out e ''bestmove 0000'', Done)
      else
        case await_radio_move lib None
               (uci_out e ''info string Waiting for remote move via radio'') trace of
          (e1, Blocked, tr) \<Rightarrow> (e1, Waiting)
        | (e1, Raised err, tr) \<Rightarrow> (e1, Crashed err)
        | (e1, Returned None, tr) \<Rightarrow> (uci_out e1 ''bestmove 0000'', Done)
        | (e1, Returned (Some remote_move), tr) \<Rightarrow>
            (uci_out e1 (''bestmove '' @ remote_move), Done))"

text \<open>The middle part: the check for an active game and "Detect new local moves".\<close>

definition go_local_moves ::
  "'m chesslib \<Rightarrow> 'm engine \<Rightarrow> event list \<Rightarrow> 'm engine \<times> go_result" where
  "go_local_moves lib e trace =
     (case game e of
        None \<Rightarrow> (uci_out (uci_out e ''info string No active JS8Chess game'') ''bestmove 0000'', Done)
      | Some g \<Rightarrow>
          if state e \<noteq> GAME_ACTIVE then
            (uci_out (uci_out e ''info string No active JS8Chess game'') ''bestmove 0000'', Done)
          else
            let gui_moves = last_position_moves e;
                board_moves = move_list_uci lib g;
                new_moves = drop (length board_moves) gui_moves
            in case transmit_new_moves lib e g new_moves of
              (e1, ok) \<Rightarrow>
                if \<not> ok then (uci_out e1 ''bestmove 0000'', Done)
                else go_await_reply lib e1 trace)"

definition go_handler ::
  "'m chesslib \<Rightarrow> 'm engine \<Rightarrow> event list \<Rightarrow> 'm engine \<times> go_result" where
  "go_handler lib e trace =
     (if state e = NO_GAME \<or> state e = AWAITING_PROPOSAL then
        (case await_radio_move lib None
                (uci_out e ''info string Waiting for JS8Chess game to be established via radio'')
                trace of
           (e1, Blocked, tr) \<Rightarrow> (e1, Waiting)
         | (e1, Raised err, tr) \<Rightarrow> (e1, Crashed err)
         | (e1, Returned None, tr) \<Rightarrow> (uci_out e1 ''bestmove 0000'', Done)
         | (e1, Returned (Some remote_move), tr) \<Rightarrow> go_local_moves lib e1 tr)
      else go_local_moves lib e trace)"

text \<open>\<open>_handle_go\<close> clears the stop flag and starts the worker.\<close>

definition handle_go :: "'m chesslib \<Rightarrow> 'm engine \<Rightarrow> event list \<Rightarrow> 'm engine \<times> go_result" where
  "handle_go lib e trace = go_handler lib (e\<lparr>go_stop_event := False\<rparr>) trace"

text \<open>The controller as \<open>__init__\<close> leaves it, on a notation directory with no files.\<close>

definition no_files :: "'m filesystem" where
  "no_files = \<lparr>files = (\<lambda>p. None), write_outcome = Write_ok\<rparr>"

definition Engine_init :: "Config \<Rightarrow> 'm engine" where
  "Engine_init c =
     \<lparr>cfg = c, state = NO_GAME, game = None, radio_queue = [], last_position_moves = [],
      go_stop_event = False, uci_lines = [], sent = [], fs = no_files\<rparr>"


section \<open>Notions used in the statements\<close>

text \<open>Uppercase callsigns (letters, digits and the slash) and 12-digit timestamps.\<close>

definition callsign_chars :: string where
  "callsign_chars = ''ABCDEFGHIJKLMNOPQRSTUVWXYZ0123456789/''"

definition is_callsign :: "string \<Rightarrow> bool" where
  "is_callsign s = (s \<noteq> [] \<and> list_all (\<lambda>c. c \<in> set callsign_chars) s)"

definition is_timestamp :: "string \<Rightarrow> bool" where
  "is_timestamp ts = (length ts = 12 \<and> list_all is_digit ts)"

text \<open>
  The session's operations in sequence, each on the files the one before left; the
  environment may replace the files between two operations.
\<close>

datatype 'm session_op =
  Apply_move string | Restore_to_ply int | Set_result string | Files_become "'m filesystem"

fun run_op ::
  "'m chesslib \<Rightarrow> 'm filesystem \<times> 'm GameSession \<Rightarrow> 'm session_op
     \<Rightarrow> 'm filesystem \<times> 'm GameSession" where
  "run_op lib (fsys, s) (Apply_move mv) = snd (apply_move lib mv fsys s)"
| "run_op lib (fsys, s) (Restore_to_ply n) = (fsys, snd (restore_to_ply lib n fsys s))"
| "run_op lib (fsys, s) (Set_result r) = snd (set_result lib r fsys s)"
| "run_op lib (fsys, s) (Files_become fsys') = (fsys', s)"

definition run_ops ::
  "'m chesslib \<Rightarrow> 'm filesystem \<times> 'm GameSession \<Rightarrow> 'm session_op list
     \<Rightarrow> 'm filesystem \<times> 'm GameSession" where
  "run_ops lib start ops = foldl (run_op lib) start ops"

text \<open>
  The controller after \<open>k\<close> retransmissions of a frame, and the number of polls of
  the empty queue that make up one timeout cycle of \<open>w\<close> seconds: the loop subtracts
  5 from the remaining wait at every poll and retries when nothing remains.
\<close>

definition retransmitted :: "'m engine \<Rightarrow> string \<Rightarrow> nat \<Rightarrow> 'm engine" where
  "retransmitted e frame k =
     e\<lparr>uci_lines := uci_lines e @ replicate k (''info string RETRY TX: '' @ frame),
       sent := sent e @ replicate k (remote_callsign (cfg e), frame)\<rparr>"

definition polls_per_cycle :: "int \<Rightarrow> nat" where
  "polls_per_cycle w = nat ((w + 4) div 5)"

text \<open>
  What is observed of a run of the worker: how it ended, the last line it wrote to the
  UCI output (the runs considered write at least one), and the session's move stack
  afterwards.
\<close>

definition observe :: "'m engine \<times> go_result \<Rightarrow> go_result \<times> string \<times> 'm list option" where
  "observe r =
     (snd r, last (uci_lines (fst r)), map_option (\<lambda>g. move_stack (board g)) (game (fst r)))"


section \<open>Concrete inputs\<close>

text \<open>
  The default configuration of config.py, and a small instance of the rules library used
  to run the model on concrete inputs: moves are their coordinate strings, and the legal
  moves are those of a four-ply opening book.
\<close>

definition DEFAULT_CONFIG :: Config where
  "DEFAULT_CONFIG =
     \<lparr>local_callsign = ''CALLSIGN'', remote_callsign = ''SWL'', js8_host = ''127.0.0.1'',
      js8_port = 2442, ack_wait_seconds = 60, move_response_wait_seconds = 120,
      max_retries = 3, auto_accept = True\<rparr>"

definition book_legal :: "string list \<Rightarrow> string \<Rightarrow> bool" where
  "book_legal st m =
     (if length st = 0 then m \<in> set [''e2e4'', ''d2d4'']
      else if length st = 1 then m \<in> set [''e7e5'', ''d7d5'']
      else if length st = 2 then m \<in> set [''g1f3'', ''d2d4'']
      else if length st = 3 then m \<in> set [''b8c6'', ''d7d5'']
      else False)"

definition book_lib :: "string chesslib" where
  "book_lib =
     \<lparr>from_uci = (\<lambda>s. if (length s = 4 \<or> length s = 5) \<and> take 2 s \<noteq> take 2 (drop 2 s)
                       then Some s else None),
      uci = (\<lambda>m. m),
      legal = book_legal,
      stored = (\<lambda>st m. m)\<rparr>"

definition noon :: datetime where
  "noon = \<lparr>year = 2025, month = 6, day = 1, hour = 14, minute = 30\<rparr>"

text \<open>
  A session in which the local side plays White, and that session and its files after the
  plies \<open>e2e4\<close> and \<open>e7e5\<close>.
\<close>

definition white_session :: "string GameSession" where
  "white_session = GameSession_init ''202506011430'' ''CALLSIGN'' ''SWL'' WHITE"

definition two_ply_files :: "string filesystem" where
  "two_ply_files = fst (run_ops book_lib (no_files, white_session)
                          [Apply_move ''e2e4'', Apply_move ''e7e5''])"

definition two_ply_session :: "string GameSession" where
  "two_ply_session = snd (run_ops book_lib (no_files, white_session)
                          [Apply_move ''e2e4'', Apply_move ''e7e5''])"

text \<open>
  The controller after it has accepted a proposal in which the peer plays White, and an
  active controller that holds the two-ply session.
\<close>

definition active_engine :: "string engine" where
  "active_engine =
     on_radio_message book_lib noon (Engine_init DEFAULT_CONFIG) ''SWL'' ''CALLSIGN''
       ''SWL CALLSIGN JS8CHESS NEW W''"

definition resync_engine :: "string engine" where
  "resync_engine = active_engine\<lparr>game := Some two_ply_session, fs := two_ply_files\<rparr>"

text \<open>Two resync requests, and inbound Move messages as \<open>parse_message\<close> builds them.\<close>

definition resync_msg :: OTAMessage where
  "resync_msg = (ota ''SWL'' ''CALLSIGN'' RESYNC_REQUEST)
                  \<lparr>timestamp := Some ''202506011430'', resync_move_num := Some 2\<rparr>"

definition stale_resync_msg :: OTAMessage where
  "stale_resync_msg = (ota ''SWL'' ''CALLSIGN'' RESYNC_REQUEST)
                  \<lparr>timestamp := Some ''202401010000'', resync_move_num := Some 2\<rparr>"

definition move_msg :: "int \<Rightarrow> string \<Rightarrow> OTAMessage" where
  "move_msg n mv = (ota ''SWL'' ''CALLSIGN'' MOVE)\<lparr>move_num := Some n, move := Some mv\<rparr>"

text \<open>
  A controller with a ten-second move wait and two retries that has accepted a proposal
  in which the peer plays Black, after the front-end's \<open>position startpos moves e2e4\<close>.
\<close>

definition quick_config :: Config where
  "quick_config = DEFAULT_CONFIG\<lparr>move_response_wait_seconds := 10, max_retries := 2\<rparr>"

definition white_engine :: "string engine" where
  "white_engine =
     handle_position
       (on_radio_message book_lib noon (Engine_init quick_config) ''SWL'' ''CALLSIGN''
          ''SWL CALLSIGN JS8CHESS NEW B'')
       [''startpos'', ''moves'', ''e2e4'']"


text \<open>
  The two-ply files with the session's file overwritten by text that is not game
  notation.
\<close>

definition garbage_files :: "string filesystem" where
  "garbage_files =
     two_ply_files\<lparr>files := (files two_ply_files)(pgn_path two_ply_session \<mapsto> Garbage)\<rparr>"

text \<open>
  A new session whose remote callsign holds the character with code 0: the configuration
  file is JSON, in which such a string is written like any other.
\<close>

definition nul_session :: "string GameSession" where
  "nul_session =
     GameSession_init ''202506011430'' ''CALLSIGN'' [CHR ''S'', CHR 0x00, CHR ''L''] WHITE"

text \<open>
  A second instance of the rules library, for a line that ends with White free to
  castle: after \<open>e2e4 e7e5 g1f3 b8c6 f1c4 f8c5\<close> the library takes both
  \<open>e1g1\<close> and \<open>e1h1\<close> as the legal castling move, and with the white king on
  \<open>e1\<close> it records \<open>e1h1\<close> as \<open>e1g1\<close>.
\<close>

definition castle_line :: "string list" where
  "castle_line = [''e2e4'', ''e7e5'', ''g1f3'', ''b8c6'', ''f1c4'', ''f8c5'']"

definition castle_legal :: "string list \<Rightarrow> string \<Rightarrow> bool" where
  "castle_legal st m =
     (if st = castle_line then m \<in> set [''e1g1'', ''e1h1'']
      else length st < length castle_line \<and> st = take (length st) castle_line
           \<and> m = castle_line ! length st)"

definition castle_lib :: "string chesslib" where
  "castle_lib =
     \<lparr>from_uci = from_uci book_lib,
      uci = (\<lambda>m. m),
      legal = castle_legal,
      stored = (\<lambda>st m. if m = ''e1h1'' then ''e1g1'' else m)\<rparr>"

text \<open>
  The session and the files after the six plies of that line, and a controller with the
  ten-second move wait and two retries that holds them, after the front-end's
  \<open>position startpos moves e2e4 e7e5 g1f3 b8c6 f1c4 f8c5 e1h1\<close>.
\<close>

definition castle_session :: "string GameSession" where
  "castle_session = snd (run_ops castle_lib (no_files, white_session) (map Apply_move castle_line))"

definition castle_files :: "string filesystem" where
  "castle_files = fst (run_ops castle_lib (no_files, white_session) (map Apply_move castle_line))"

definition castle_engine :: "string engine" where
  "castle_engine =
     handle_position
       ((on_radio_message castle_lib noon (Engine_init quick_config) ''SWL'' ''CALLSIGN''
           ''SWL CALLSIGN JS8CHESS NEW B'')\<lparr>game := Some castle_session, fs := castle_files\<rparr>)
       ([''startpos'', ''moves''] @ castle_line @ [''e1h1''])"


section \<open>Auxiliary facts\<close>

declare str_nat.simps [simp del]

lemma digit_char_is_digit: "d < 10 \<Longrightarrow> is_digit (digit_char d)"
proof -
  assume "d < 10"
  then have "d \<in> {0, 1, 2, 3, 4, 5, 6, 7, 8, 9}" by auto
  then show ?thesis by (auto simp: is_digit_def digit_char_def)
qed

lemma str_nat_digits: "list_all is_digit (str_nat n)"
proof (induction n rule: str_nat.induct)
  case (1 n)
  show ?case
  proof (cases "n < 10")
    case True
    then show ?thesis by (subst str_nat.simps) (simp add: digit_char_is_digit)
  next
    case False
    with 1 show ?thesis by (subst str_nat.simps) (simp add: digit_char_is_digit)
  qed
qed

lemma str_nat_nonempty: "str_nat n \<noteq> []"
  by (subst str_nat.simps) simp

lemma length_str_nat: "10 ^ k \<le> n \<Longrightarrow> n < 10 ^ Suc k \<Longrightarrow> length (str_nat n) = Suc k"
proof (induction k arbitrary: n)
  case 0
  then show ?case by (subst str_nat.simps) simp
next
  case (Suc k)
  define a :: nat where "a = 10 ^ k"
  have "0 < a" by (simp add: a_def)
  from Suc.prems have "10 * a \<le> n" and "n < 10 * (10 * a)"
    by (simp_all add: a_def)
  then have "a \<le> n div 10" and "n div 10 < 10 * a" and "\<not> n < 10"
    using \<open>0 < a\<close> by arith+
  then have "length (str_nat (n div 10)) = Suc k"
    using Suc.IH [of "n div 10"] by (simp add: a_def)
  with \<open>\<not> n < 10\<close> show ?case by (subst str_nat.simps) simp
qed

lemma length_pad2: "n < 100 \<Longrightarrow> length (pad2 n) = 2"
proof (cases "n < 10")
  case True
  then show ?thesis by (simp add: pad2_def str_nat.simps)
next
  case False
  assume "n < 100"
  with False show ?thesis using length_str_nat [of 1 n] by (simp add: pad2_def)
qed

lemma pad2_digits: "list_all is_digit (pad2 n)"
  by (simp add: pad2_def str_nat_digits is_digit_def)

lemma now_timestamp_12:
  assumes "1000 \<le> year now" "year now \<le> 9999" "month now < 100" "day now < 100"
    "hour now < 100" "minute now < 100"
  shows "length (now_timestamp now) = 12 \<and> list_all is_digit (now_timestamp now)"
proof -
  have "length (str_nat (year now)) = 4"
    using length_str_nat [of 3 "year now"] assms by simp
  with assms show ?thesis
    by (simp add: now_timestamp_def length_pad2 pad2_digits str_nat_digits)
qed

lemma send_error_effect:
  "send_error e code =
     e\<lparr>uci_lines := uci_lines e @ [''info string TX error '' @ code @ '': ''
            @ (case ERR_DESCRIPTIONS code of None \<Rightarrow> [] | Some d \<Rightarrow> d)],
       sent := sent e @ [(remote_callsign (cfg e),
            remote_callsign (cfg e) @ '' '' @ local_callsign (cfg e)
              @ '' JS8CHESS '' @ code @ '' >'')]\<rparr>"
  by (simp add: send_error_def uci_out_def bridge_send_def fmt_error_def Let_def)

lemma apply_move_success_stack:
  assumes "apply_move lib mv fsys s = (True, fsys', s')"
  shows "\<exists>m. from_uci lib mv = Some m \<and> legal lib (move_stack (board s)) m
           \<and> move_stack (board s')
               = move_stack (board s) @ [stored lib (move_stack (board s)) m]"
  using assms
  by (auto simp: apply_move_def Let_def push_def
           split: option.splits if_splits prod.splits sum.splits)

lemma apply_move_valid:
  assumes "from_uci lib mv = Some m" and "legal lib (move_stack (board s)) m"
  shows "\<exists>ok fsys' s'. apply_move lib mv fsys s = (ok, fsys', s')
           \<and> move_stack (board s')
               = move_stack (board s) @ [stored lib (move_stack (board s)) m]
           \<and> (ok \<longleftrightarrow> CHR 0x00 \<notin> set (pgn_path s) \<and> write_outcome fsys \<noteq> Write_ValueError)"
  using assms
  by (auto simp: apply_move_def save_pgn_def Let_def push_def split: prod.splits)

lemma apply_move_invalid:
  assumes "\<not> validate_move lib s mv"
  shows "apply_move lib mv fsys s = (False, fsys, s)"
  using assms
  by (auto simp: apply_move_def validate_move_def split: option.splits)

lemma replay_eq:
  "replay lib target ms b node applied =
     (let k = min (nat (target - int applied)) (length ms)
      in (foldl (push lib) b (take k ms), node @ replicate k 0, applied + k))"
proof (induction ms arbitrary: b node applied)
  case Nil
  then show ?case by simp
next
  case (Cons m ms)
  show ?case
  proof (cases "int applied \<ge> target")
    case True
    then show ?thesis by simp
  next
    case False
    then have "nat (target - int applied) = Suc (nat (target - int (applied + 1)))"
      by simp
    with False Cons.IH [of "push lib b m" "node @ [0]" "applied + 1"] show ?thesis
      by (simp add: Let_def replicate_app_Cons_same del: replicate_Suc flip: replicate_Suc)
  qed
qed

lemma foldl_push_length:
  "length (move_stack (foldl (push lib) b ms)) = length (move_stack b) + length ms"
  by (induction ms arbitrary: b) (simp_all add: push_def)

lemma foldl_push_turn:
  "turn (foldl (push lib) b ms) = (if even (length ms) then turn b else \<not> turn b)"
  by (induction ms arbitrary: b) (simp_all add: push_def)

lemma restore_parsed:
  assumes "files fsys (pgn_path s) = Some (Parsed g)"
  shows "\<exists>s'. restore_to_ply lib n fsys s = (True, s')
           \<and> length (move_stack (board s')) = min (nat n) (length (mainline_moves (root g)))
           \<and> pgn_game s' = g"
  using assms
  by (simp add: restore_to_ply_def read_game_def replay_eq Let_def foldl_push_length
                Board_init_def)

lemma restore_failure_keeps: "restore_to_ply lib n fsys s = (False, s') \<Longrightarrow> s' = s"
  by (auto simp: restore_to_ply_def Let_def
           split: option.splits sum.splits prod.splits)

lemma restore_keeps_game_id:
  "restore_to_ply lib n fsys s = (ok, s') \<Longrightarrow> game_id s' = game_id s"
  by (auto simp: restore_to_ply_def Let_def
           split: option.splits sum.splits prod.splits)

lemma two_ply_stack: "move_stack (board two_ply_session) = [''e2e4'', ''e7e5'']"
  by code_simp


text \<open>Facts about the string primitives and the codec.\<close>

lemma callsign_alphabet:
  "list_all (\<lambda>c. \<not> is_space c \<and> upper_char c = c) callsign_chars"
  by code_simp

lemma callsign_char:
  assumes "c \<in> set callsign_chars"
  shows "\<not> is_space c" and "upper_char c = c"
  using assms callsign_alphabet unfolding list_all_iff by blast+

lemma digit_alphabet:
  "list_all (\<lambda>c. \<not> is_space c \<and> upper_char c = c) ''0123456789''"
  by code_simp

lemma digit_char_props:
  assumes "is_digit c"
  shows "\<not> is_space c" and "upper_char c = c"
  using assms digit_alphabet unfolding list_all_iff is_digit_def by blast+

lemma py_upper_id: "list_all (\<lambda>c. upper_char c = c) s \<Longrightarrow> py_upper s = s"
  by (induction s) (simp_all add: py_upper_def)

lemma py_upper_append: "py_upper (a @ b) = py_upper a @ py_upper b"
  by (simp add: py_upper_def)

lemma py_strip_id:
  assumes "s \<noteq> []" and "\<not> is_space (hd s)" and "\<not> is_space (last s)"
  shows "py_strip s = s"
proof -
  from assms have "dropWhile is_space s = s"
    by (cases s) simp_all
  moreover from assms have "dropWhile is_space (rev s) = rev s"
    by (cases "rev s") (simp_all add: last_rev [symmetric] hd_rev)
  ultimately show ?thesis by (simp add: py_strip_def)
qed

lemma py_strip_space:
  assumes "s \<noteq> []" and "\<not> is_space (hd s)" and "\<not> is_space (last s)"
  shows "py_strip (CHR '' '' # s) = s"
proof -
  have "dropWhile is_space (CHR '' '' # s) = dropWhile is_space s"
    by (simp add: is_space_def)
  then have "py_strip (CHR '' '' # s) = py_strip s"
    by (simp add: py_strip_def)
  with assms show ?thesis by (simp add: py_strip_id)
qed

lemma callsign_props:
  assumes "is_callsign s"
  shows "s \<noteq> []" and "\<not> is_space (hd s)" and "py_upper s = s"
proof -
  from assms show ne: "s \<noteq> []" by (simp add: is_callsign_def)
  from assms have all: "\<forall>c\<in>set s. c \<in> set callsign_chars"
    by (simp add: is_callsign_def list_all_iff)
  from ne have "hd s \<in> set s" by (rule hd_in_set)
  with all have "hd s \<in> set callsign_chars" by blast
  then show "\<not> is_space (hd s)" by (rule callsign_char)
  from all have "list_all (\<lambda>c. upper_char c = c) s"
    unfolding list_all_iff using callsign_char(2) by blast
  then show "py_upper s = s" by (rule py_upper_id)
qed

lemma parse_directed:
  assumes L: "is_callsign L" and R: "is_callsign R"
    and p: "payload \<noteq> []" "\<not> is_space (hd payload)" "\<not> is_space (last payload)"
           "py_upper payload = payload"
  shows "parse_message (L @ '' '' @ R @ '' JS8CHESS '' @ payload) R L []
           = Some (classify L R payload)"
proof -
  define pre where "pre = L @ '' '' @ R @ '' JS8CHESS''"
  define frame where "frame = pre @ CHR '' '' # payload"
  have t: "L @ '' '' @ R @ '' JS8CHESS '' @ payload = frame"
    by (simp add: frame_def pre_def)
  have "hd frame = hd L" and "last frame = last payload" and "frame \<noteq> []"
    using callsign_props(1) [OF L] p(1) by (simp_all add: frame_def pre_def)
  then have strip: "py_strip frame = frame"
    using p callsign_props(2) [OF L] by (simp add: py_strip_id)
  have k: "py_upper '' '' = '' ''" "py_upper '' JS8CHESS'' = '' JS8CHESS''"
    by code_simp+
  have up_pre: "py_upper pre = pre"
    by (simp only: pre_def py_upper_append k callsign_props(3) [OF L] callsign_props(3) [OF R])
  have "frame = pre @ '' '' @ payload"
    by (simp add: frame_def)
  then have up: "py_upper frame = frame"
    by (simp only: py_upper_append k up_pre p(4))
  have sw: "startswith frame pre"
    by (simp add: frame_def startswith_def)
  have payload: "py_strip (drop (length pre) frame) = payload"
    using p by (simp add: frame_def py_strip_space)
  show ?thesis
    unfolding t parse_message_def Let_def strip up
      callsign_props(3) [OF L] callsign_props(3) [OF R]
    using sw payload unfolding pre_def by simp
qed

lemma digit_val_digit_char: "d < 10 \<Longrightarrow> digit_val (digit_char d) = d"
proof -
  assume "d < 10"
  then have "d \<in> {0, 1, 2, 3, 4, 5, 6, 7, 8, 9}" by auto
  then show ?thesis by (auto simp: digit_val_def digit_char_def)
qed

lemma int_of_digits_str_nat: "int_of_digits (str_nat n) = int n"
proof (induction n rule: str_nat.induct)
  case (1 n)
  show ?case
  proof (cases "n < 10")
    case True
    then show ?thesis
      by (subst str_nat.simps) (simp add: int_of_digits_def digit_val_digit_char)
  next
    case False
    with 1 have "foldl (\<lambda>a c. 10 * a + digit_val c) 0 (str_nat (n div 10)) = n div 10"
      by (simp add: int_of_digits_def)
    with False show ?thesis
      by (subst str_nat.simps) (simp add: int_of_digits_def digit_val_digit_char)
  qed
qed

lemma int_of_digits_pad2: "n < 100 \<Longrightarrow> int_of_digits (pad2 n) = int n"
proof (cases "n < 10")
  case True
  have "digit_val CHR ''0'' = 0" by (simp add: digit_val_def)
  then have "int_of_digits (CHR ''0'' # str_nat n) = int_of_digits (str_nat n)"
    by (simp add: int_of_digits_def)
  with True show ?thesis by (simp add: pad2_def int_of_digits_str_nat)
next
  case False
  then show ?thesis by (simp add: pad2_def int_of_digits_str_nat)
qed

lemma now_timestamp_fields:
  assumes "1000 \<le> year now" "year now \<le> 9999" "month now < 100" "day now < 100"
    "hour now < 100" "minute now < 100"
  shows "int_of_digits (take 4 (now_timestamp now)) = int (year now)"
    and "int_of_digits (take 2 (drop 4 (now_timestamp now))) = int (month now)"
    and "int_of_digits (take 2 (drop 6 (now_timestamp now))) = int (day now)"
    and "int_of_digits (take 2 (drop 8 (now_timestamp now))) = int (hour now)"
    and "int_of_digits (take 2 (drop 10 (now_timestamp now))) = int (minute now)"
proof -
  have y: "length (str_nat (year now)) = 4"
    using length_str_nat [of 3 "year now"] assms by simp
  note l = y length_pad2 [OF assms(3)] length_pad2 [OF assms(4)] length_pad2 [OF assms(5)]
    length_pad2 [OF assms(6)]
  show "int_of_digits (take 4 (now_timestamp now)) = int (year now)"
    by (simp add: now_timestamp_def l int_of_digits_str_nat)
  show "int_of_digits (take 2 (drop 4 (now_timestamp now))) = int (month now)"
    by (simp add: now_timestamp_def l int_of_digits_pad2 assms)
  show "int_of_digits (take 2 (drop 6 (now_timestamp now))) = int (day now)"
    by (simp add: now_timestamp_def l int_of_digits_pad2 assms)
  show "int_of_digits (take 2 (drop 8 (now_timestamp now))) = int (hour now)"
    by (simp add: now_timestamp_def l int_of_digits_pad2 assms)
  show "int_of_digits (take 2 (drop 10 (now_timestamp now))) = int (minute now)"
    by (simp add: now_timestamp_def l int_of_digits_pad2 assms)
qed

lemma timestamp_props:
  assumes "is_timestamp ts"
  shows "length ts = 12" and "list_all is_digit ts" and "ts \<noteq> []"
    and "\<not> is_space (hd ts)" and "py_upper ts = ts" and "is_digit (hd ts)"
proof -
  from assms show len: "length ts = 12" and all: "list_all is_digit ts"
    by (simp_all add: is_timestamp_def)
  from len show ne: "ts \<noteq> []" by auto
  then have "hd ts \<in> set ts" by (rule hd_in_set)
  with all show d: "is_digit (hd ts)" by (simp add: list_all_iff)
  then show "\<not> is_space (hd ts)" by (rule digit_char_props)
  from all have "list_all (\<lambda>c. upper_char c = c) ts"
    unfolding list_all_iff using digit_char_props(2) by blast
  then show "py_upper ts = ts" by (rule py_upper_id)
qed

lemma digits_props:
  assumes "ds \<noteq> []" and "list_all is_digit ds"
  shows "\<not> is_space (last ds)" and "py_upper ds = ds"
proof -
  from assms(1) have "last ds \<in> set ds" by (rule last_in_set)
  with assms(2) have "is_digit (last ds)" by (simp add: list_all_iff)
  then show "\<not> is_space (last ds)" by (rule digit_char_props)
  from assms(2) have "list_all (\<lambda>c. upper_char c = c) ds"
    unfolding list_all_iff using digit_char_props(2) by blast
  then show "py_upper ds = ds" by (rule py_upper_id)
qed

lemma classify_acceptance:
  assumes ts: "is_timestamp ts" and c: "c = CHR ''W'' \<or> c = CHR ''B''"
  shows "classify L R (ts @ '' '' @ [c])
           = (ota L R ACCEPTANCE)\<lparr>timestamp := Some ts, color := Some [c]\<rparr>"
proof -
  let ?p = "ts @ '' '' @ [c]"
  have len: "length ?p = 14" using timestamp_props(1) [OF ts] by simp
  then have n1: "?p \<noteq> ''>''" "?p \<noteq> []" by auto
  have n2: "match_new ?p = None" using len by (simp add: match_new_def)
  have m: "match_acceptance ?p = Some (ts, [c])"
    using timestamp_props(1,2) [OF ts] c
    by (simp add: match_acceptance_def is_WB_def nth_append)
  show ?thesis
    unfolding classify_def using n1 n2 m by simp
qed

lemma classify_resync_ok:
  assumes ts: "is_timestamp ts"
  shows "classify L R (''OK RS '' @ ts @ '' MN='' @ str_nat n)
           = (ota L R RESYNC_OK)\<lparr>timestamp := Some ts, resync_move_num := Some (int n)\<rparr>"
proof -
  define ds where "ds = str_nat n"
  have ds: "ds \<noteq> []" "list_all is_digit ds" "int_of_digits ds = int n"
    by (simp_all add: ds_def str_nat_nonempty str_nat_digits int_of_digits_str_nat)
  let ?p = "''OK RS '' @ ts @ '' MN='' @ ds"
  have tl: "length ts = 12" by (rule timestamp_props(1) [OF ts])
  have len: "length ?p = 22 + length ds" using tl by simp
  have len23: "23 \<le> length ?p" using len ds(1) by (cases ds) simp_all
  have n1: "?p \<noteq> ''>''" "?p \<noteq> []" by simp_all
  have n2: "match_new ?p = None" using len23 by (simp add: match_new_def)
  have n3: "match_acceptance ?p = None" using len23 by (simp add: match_acceptance_def)
  have n4: "match_error ?p = None" by (simp add: match_error_def)
  have n5: "match_resync_request ?p = None" by (simp add: match_resync_request_def)
  have m: "match_resync_ok ?p = Some (ts, int n)"
    unfolding match_resync_ok_def using len23 tl ds timestamp_props(2) [OF ts]
    by simp
  show ?thesis
    unfolding classify_def ds_def [symmetric] using n1 n2 n3 n4 n5 m by simp
qed

lemma parse_acceptance_at_peer:
  assumes L: "is_callsign L" and R: "is_callsign R" and ts: "is_timestamp ts"
    and c: "ch = CHR ''W'' \<or> ch = CHR ''B''"
  shows "parse_message (fmt_acceptance L R ts [ch]) R L []
           = Some ((ota L R ACCEPTANCE)\<lparr>timestamp := Some ts, color := Some [ch]\<rparr>)"
proof -
  have "py_upper ''W'' = ''W''" "py_upper ''B'' = ''B''"
       "\<not> is_space (CHR ''W'')" "\<not> is_space (CHR ''B'')"
    by code_simp+
  with c have u: "py_upper [ch] = [ch]" and s: "\<not> is_space ch"
    by auto
  define payload where "payload = ts @ '' '' @ [ch]"
  have k: "py_upper '' '' = '' ''" by code_simp
  have p: "payload \<noteq> []" "\<not> is_space (hd payload)" "\<not> is_space (last payload)"
    using timestamp_props(3,4) [OF ts] s by (simp_all add: payload_def)
  have up: "py_upper payload = payload"
    by (simp only: payload_def py_upper_append k u timestamp_props(5) [OF ts])
  have "fmt_acceptance L R ts [ch] = L @ '' '' @ R @ '' JS8CHESS '' @ payload"
    by (simp add: fmt_acceptance_def u payload_def)
  with parse_directed [OF L R p up] classify_acceptance [OF ts c, of L R]
  show ?thesis by (simp add: payload_def)
qed

lemma parse_resync_ok_at_peer:
  assumes L: "is_callsign L" and R: "is_callsign R" and ts: "is_timestamp ts"
  shows "parse_message (fmt_resync_ok L R ts (int n)) R L []
           = Some ((ota L R RESYNC_OK)\<lparr>timestamp := Some ts, resync_move_num := Some (int n)\<rparr>)"
proof -
  define payload where "payload = ''OK RS '' @ ts @ '' MN='' @ str_nat n"
  have k: "py_upper ''OK RS '' = ''OK RS ''" "py_upper '' MN='' = '' MN=''" by code_simp+
  have o: "\<not> is_space (CHR ''O'')" by code_simp
  have p: "payload \<noteq> []" "\<not> is_space (hd payload)" "\<not> is_space (last payload)"
    using o digits_props(1) [OF str_nat_nonempty str_nat_digits, of n] str_nat_nonempty [of n]
    by (simp_all add: payload_def)
  have up: "py_upper payload = payload"
    by (simp only: payload_def py_upper_append k timestamp_props(5) [OF ts]
                   digits_props(2) [OF str_nat_nonempty str_nat_digits])
  have "fmt_resync_ok L R ts (int n) = L @ '' '' @ R @ '' JS8CHESS '' @ payload"
    by (simp add: fmt_resync_ok_def str_int_def payload_def)
  with parse_directed [OF L R p up] classify_resync_ok [OF ts, of L R n]
  show ?thesis by (simp add: payload_def)
qed


text \<open>Facts about the go worker.\<close>

lemma lower_fixed: "list_all (\<lambda>c. lower_char c = c) ''abcdefghijklmnopqrstuvwxyz''"
  by code_simp

lemma lower_char_idem: "lower_char (lower_char c) = lower_char c"
proof -
  define us where "us = ''ABCDEFGHIJKLMNOPQRSTUVWXYZ''"
  define ls where "ls = ''abcdefghijklmnopqrstuvwxyz''"
  have lc: "lower_char c = (case map_of (zip us ls) c of Some l \<Rightarrow> l | None \<Rightarrow> c)"
    by (simp only: lower_char_def us_def ls_def)
  show ?thesis
  proof (cases "map_of (zip us ls) c")
    case None
    with lc show ?thesis by simp
  next
    case (Some l)
    then have "(c, l) \<in> set (zip us ls)" by (rule map_of_SomeD)
    then have "l \<in> set ls" by (rule set_zip_rightD)
    with lower_fixed have "lower_char l = l"
      unfolding ls_def [symmetric] list_all_iff by blast
    with lc Some show ?thesis by simp
  qed
qed

lemma py_lower_idem: "py_lower (py_lower s) = py_lower s"
  by (simp add: py_lower_def lower_char_idem)

lemma classify_move_lower:
  assumes "msg_type (classify r l p) = MOVE"
  shows "\<exists>mv. move (classify r l p) = Some mv \<and> py_lower mv = mv"
  using assms
  by (auto simp: classify_def ota_def py_lower_idem split: option.splits if_splits prod.splits)

lemma parse_move_lower:
  assumes "parse_message text lc rc fc = Some msg" and "msg_type msg = MOVE"
  shows "\<exists>mv. move msg = Some mv \<and> py_lower mv = mv"
proof -
  from assms(1) obtain r l p where "msg = classify r l p"
    by (auto simp: parse_message_def Let_def split: if_splits)
  with assms(2) classify_move_lower show ?thesis by blast
qed

lemma await_loop_item:
  assumes "\<not> go_stop_event e" and "0 \<le> wait" and "radio_queue e = Msg msg # q"
  shows "await_loop lib timeout e wait r tr =
           (case process_radio_item lib (e\<lparr>radio_queue := q\<rparr>) msg of
              Inl err \<Rightarrow> (e\<lparr>radio_queue := q\<rparr>, Raised err, tr)
            | Inr (e', res) \<Rightarrow> (e', Returned res, tr))"
  using assms by (cases tr) (simp_all split: sum.splits)

lemma process_move_success:
  assumes "msg_type msg = MOVE" and "game e = Some g"
    and "move_num msg = Some (expected_move_num g)" and "move msg = Some mv"
    and "validate_move lib g mv"
  shows "\<exists>e' g' m. process_radio_item lib e msg = Inr (e', Some mv)
           \<and> game e' = Some g' \<and> from_uci lib mv = Some m
           \<and> move_stack (board g')
               = move_stack (board g) @ [stored lib (move_stack (board g)) m]
           \<and> sent e' = sent e \<and> state e' = state e
           \<and> uci_lines e' = uci_lines e
                @ [''info string RX move: '' @ str_int (expected_move_num g) @ py_upper mv]"
proof -
  from assms(5) obtain m where m: "from_uci lib mv = Some m"
    and l: "legal lib (move_stack (board g)) m"
    by (auto simp: validate_move_def split: option.splits)
  from apply_move_valid [OF m l, of "fs e"]
  obtain ok fs' g' where a: "apply_move lib mv (fs e) g = (ok, fs', g')"
    and "move_stack (board g') = move_stack (board g) @ [stored lib (move_stack (board g)) m]"
    by blast
  with assms m show ?thesis
    by (simp add: process_radio_item_def Let_def uci_out_def fint_def)
qed

lemma retransmit_effect:
  assumes "game e = Some g" and "move_stack (board g) = st @ [m]"
  shows "retransmit_last_local_move lib e =
           retransmitted e (fmt_move (local_callsign (cfg e)) (remote_callsign (cfg e))
                              (int (length st) + 1) (uci lib m)) 1"
  using assms
  by (simp add: retransmit_last_local_move_def retransmitted_def move_list_uci_def
                expected_move_num_def Let_def uci_out_def bridge_send_def nth_append add.commute)

lemma retransmitted_fields:
  "radio_queue (retransmitted e f k) = radio_queue e"
  "go_stop_event (retransmitted e f k) = go_stop_event e"
  "game (retransmitted e f k) = game e"
  "cfg (retransmitted e f k) = cfg e"
  "state (retransmitted e f k) = state e"
  "sent (retransmitted e f k) = sent e @ replicate k (remote_callsign (cfg e), f)"
  "uci_lines (retransmitted e f k) = uci_lines e @ replicate k (''info string RETRY TX: '' @ f)"
  by (simp_all add: retransmitted_def)

lemma retransmitted_add:
  "retransmitted (retransmitted e f j) f k = retransmitted e f (j + k)"
  by (simp add: retransmitted_def replicate_add)

lemma retransmitted_0: "retransmitted e f 0 = e"
  by (simp add: retransmitted_def)

lemma await_timeout_step:
  assumes "radio_queue e = []" and "\<not> go_stop_event e" and "0 \<le> wait"
  shows "await_loop lib None e wait r (Timeout # tr) =
           (if wait - 5 \<le> 0 then
              (if r > 0 then await_loop lib None (retransmit_last_local_move lib e)
                               (move_response_wait_seconds (cfg e)) (r - 1) tr
               else (uci_out e ''info string ERROR: no response after max retries'',
                     Returned None, tr))
            else await_loop lib None e (wait - 5) r tr)"
  using assms by (simp add: Let_def)

lemma await_timeouts_bounded:
  assumes "radio_queue e = []" and "\<not> go_stop_event e"
    and "game e = Some g" and "move_stack (board g) = st @ [m]"
    and "0 < move_response_wait_seconds (cfg e)" and "0 < wait"
    and "f = fmt_move (local_callsign (cfg e)) (remote_callsign (cfg e))
               (int (length st) + 1) (uci lib m)"
  shows "\<exists>k. int k \<le> max 0 r
           \<and> (await_loop lib None e wait r (replicate n Timeout)
                 = (retransmitted e f k, Blocked, [])
              \<or> int k = max 0 r
                \<and> (\<exists>tr. await_loop lib None e wait r (replicate n Timeout)
                     = (uci_out (retransmitted e f k)
                          ''info string ERROR: no response after max retries'',
                        Returned None, tr)))"
  using assms
proof (induction n arbitrary: e wait r)
  case 0
  then have "await_loop lib None e wait r (replicate 0 Timeout) = (retransmitted e f 0, Blocked, [])"
    by (simp add: retransmitted_0)
  then show ?case by (intro exI [of _ 0]) simp
next
  case (Suc n)
  let ?W = "move_response_wait_seconds (cfg e)"
  have step: "await_loop lib None e wait r (replicate (Suc n) Timeout) =
           (if wait - 5 \<le> 0 then
              (if r > 0 then await_loop lib None (retransmit_last_local_move lib e) ?W (r - 1)
                               (replicate n Timeout)
               else (uci_out e ''info string ERROR: no response after max retries'',
                     Returned None, replicate n Timeout))
            else await_loop lib None e (wait - 5) r (replicate n Timeout))"
    using await_timeout_step [of e wait lib r "replicate n Timeout"] Suc.prems by simp
  show ?case
  proof (cases "wait - 5 \<le> 0")
    case False
    with Suc.IH [of e "wait - 5" r] Suc.prems step show ?thesis by simp
  next
    case True
    show ?thesis
    proof (cases "r > 0")
      case False
      with True step have "await_loop lib None e wait r (replicate (Suc n) Timeout)
          = (uci_out (retransmitted e f 0) ''info string ERROR: no response after max retries'',
             Returned None, replicate n Timeout)"
        by (simp add: retransmitted_0)
      with False show ?thesis by (intro exI [of _ 0]) auto
    next
      case r: True
      define e1 where "e1 = retransmitted e f 1"
      have re: "retransmit_last_local_move lib e = e1"
        using retransmit_effect [OF Suc.prems(3,4), of lib] Suc.prems(7) by (simp add: e1_def)
      have pre: "radio_queue e1 = []" "\<not> go_stop_event e1" "game e1 = Some g"
        "0 < move_response_wait_seconds (cfg e1)"
        "f = fmt_move (local_callsign (cfg e1)) (remote_callsign (cfg e1))
               (int (length st) + 1) (uci lib m)"
        using Suc.prems by (simp_all add: e1_def retransmitted_fields)
      from Suc.IH [OF pre(1-3) Suc.prems(4) pre(4) pre(4) pre(5), of "r - 1"]
      obtain k where k: "int k \<le> max 0 (r - 1)"
        and d: "await_loop lib None e1 (move_response_wait_seconds (cfg e1)) (r - 1)
                  (replicate n Timeout) = (retransmitted e1 f k, Blocked, [])
              \<or> int k = max 0 (r - 1)
                \<and> (\<exists>tr. await_loop lib None e1 (move_response_wait_seconds (cfg e1)) (r - 1)
                         (replicate n Timeout)
                     = (uci_out (retransmitted e1 f k)
                          ''info string ERROR: no response after max retries'',
                        Returned None, tr))"
        by blast
      have c: "move_response_wait_seconds (cfg e1) = ?W"
        by (simp add: e1_def retransmitted_fields)
      have a: "retransmitted e1 f k = retransmitted e f (Suc k)"
        by (simp add: e1_def retransmitted_add)
      from True r step re have s: "await_loop lib None e wait r (replicate (Suc n) Timeout)
           = await_loop lib None e1 ?W (r - 1) (replicate n Timeout)"
        by simp
      from k r have k': "int (Suc k) \<le> max 0 r" by simp
      from d show ?thesis
      proof
        assume "await_loop lib None e1 (move_response_wait_seconds (cfg e1)) (r - 1)
                  (replicate n Timeout) = (retransmitted e1 f k, Blocked, [])"
        with s c a k' show ?thesis by (intro exI [of _ "Suc k"]) simp
      next
        assume "int k = max 0 (r - 1)
                \<and> (\<exists>tr. await_loop lib None e1 (move_response_wait_seconds (cfg e1)) (r - 1)
                         (replicate n Timeout)
                     = (uci_out (retransmitted e1 f k)
                          ''info string ERROR: no response after max retries'',
                        Returned None, tr))"
        with s c a k' r show ?thesis by (intro exI [of _ "Suc k"]) auto
      qed
    qed
  qed
qed

lemma await_one_cycle:
  assumes "radio_queue e = []" and "\<not> go_stop_event e" and "0 < wait"
    and "n = polls_per_cycle wait"
  shows "await_loop lib None e wait r (replicate n Timeout @ tr) =
           (if r > 0 then await_loop lib None (retransmit_last_local_move lib e)
                            (move_response_wait_seconds (cfg e)) (r - 1) tr
            else (uci_out e ''info string ERROR: no response after max retries'',
                  Returned None, tr))"
  using assms
proof (induction n arbitrary: wait)
  case 0
  then show ?case by (simp add: polls_per_cycle_def)
next
  case (Suc n)
  have step: "await_loop lib None e wait r (replicate (Suc n) Timeout @ tr) =
           (if wait - 5 \<le> 0 then
              (if r > 0 then await_loop lib None (retransmit_last_local_move lib e)
                               (move_response_wait_seconds (cfg e)) (r - 1)
                               (replicate n Timeout @ tr)
               else (uci_out e ''info string ERROR: no response after max retries'',
                     Returned None, replicate n Timeout @ tr))
            else await_loop lib None e (wait - 5) r (replicate n Timeout @ tr))"
    using await_timeout_step [of e wait lib r "replicate n Timeout @ tr"] Suc.prems(1-3)
    by simp
  show ?case
  proof (cases "wait - 5 \<le> 0")
    case True
    with Suc.prems(3,4) have "n = 0" unfolding polls_per_cycle_def by arith
    with True step show ?thesis by simp
  next
    case False
    with Suc.prems(3,4) have "n = polls_per_cycle (wait - 5)"
      unfolding polls_per_cycle_def by arith
    with Suc.IH [of "wait - 5"] Suc.prems(1,2) False step show ?thesis by simp
  qed
qed

lemma await_exhaust:
  assumes "radio_queue e = []" and "\<not> go_stop_event e"
    and "game e = Some g" and "move_stack (board g) = st @ [m]"
    and "0 < move_response_wait_seconds (cfg e)"
    and "f = fmt_move (local_callsign (cfg e)) (remote_callsign (cfg e))
               (int (length st) + 1) (uci lib m)"
    and "p = polls_per_cycle (move_response_wait_seconds (cfg e))"
  shows "await_loop lib None e (move_response_wait_seconds (cfg e)) (int k)
           (replicate (p * Suc k) Timeout @ tr)
         = (uci_out (retransmitted e f k) ''info string ERROR: no response after max retries'',
            Returned None, tr)"
  using assms
proof (induction k arbitrary: e)
  case 0
  with await_one_cycle [of e "move_response_wait_seconds (cfg e)" p lib 0 tr]
  show ?case by (simp add: retransmitted_0)
next
  case (Suc k)
  let ?W = "move_response_wait_seconds (cfg e)"
  define e1 where "e1 = retransmitted e f 1"
  have re: "retransmit_last_local_move lib e = e1"
    using retransmit_effect [OF Suc.prems(3,4), of lib] Suc.prems(6) by (simp add: e1_def)
  have pre: "radio_queue e1 = []" "\<not> go_stop_event e1" "game e1 = Some g"
    "0 < move_response_wait_seconds (cfg e1)"
    "f = fmt_move (local_callsign (cfg e1)) (remote_callsign (cfg e1))
           (int (length st) + 1) (uci lib m)"
    "p = polls_per_cycle (move_response_wait_seconds (cfg e1))"
    using Suc.prems by (simp_all add: e1_def retransmitted_fields)
  have c: "move_response_wait_seconds (cfg e1) = ?W"
    by (simp add: e1_def retransmitted_fields)
  have split: "replicate (p * Suc (Suc k)) Timeout @ tr
                 = replicate p Timeout @ (replicate (p * Suc k) Timeout @ tr)"
    by (simp add: replicate_add [symmetric])
  have "await_loop lib None e ?W (int (Suc k)) (replicate (p * Suc (Suc k)) Timeout @ tr)
          = await_loop lib None e1 ?W (int k) (replicate (p * Suc k) Timeout @ tr)"
    unfolding split
    using await_one_cycle [of e ?W p lib "int (Suc k)" "replicate (p * Suc k) Timeout @ tr"]
          Suc.prems re
    by simp
  also have "\<dots> = (uci_out (retransmitted e1 f k)
                       ''info string ERROR: no response after max retries'', Returned None, tr)"
    using Suc.IH [OF pre(1-3) Suc.prems(4) pre(4-6)] c by simp
  also have "retransmitted e1 f k = retransmitted e f (Suc k)"
    by (simp add: e1_def retransmitted_add)
  finally show ?case .
qed

lemma await_cycles:
  assumes "radio_queue e = []" and "\<not> go_stop_event e"
    and "game e = Some g" and "move_stack (board g) = st @ [m]"
    and "0 < move_response_wait_seconds (cfg e)"
    and "f = fmt_move (local_callsign (cfg e)) (remote_callsign (cfg e))
               (int (length st) + 1) (uci lib m)"
    and "p = polls_per_cycle (move_response_wait_seconds (cfg e))"
    and "int j \<le> r"
  shows "await_loop lib None e (move_response_wait_seconds (cfg e)) r
           (replicate (p * j) Timeout @ tr)
         = await_loop lib None (retransmitted e f j) (move_response_wait_seconds (cfg e))
             (r - int j) tr"
  using assms
proof (induction j arbitrary: e r)
  case 0
  then show ?case by (simp add: retransmitted_0)
next
  case (Suc j)
  let ?W = "move_response_wait_seconds (cfg e)"
  define e1 where "e1 = retransmitted e f 1"
  have re: "retransmit_last_local_move lib e = e1"
    using retransmit_effect [OF Suc.prems(3,4), of lib] Suc.prems(6) by (simp add: e1_def)
  have pre: "radio_queue e1 = []" "\<not> go_stop_event e1" "game e1 = Some g"
    "0 < move_response_wait_seconds (cfg e1)"
    "f = fmt_move (local_callsign (cfg e1)) (remote_callsign (cfg e1))
           (int (length st) + 1) (uci lib m)"
    "p = polls_per_cycle (move_response_wait_seconds (cfg e1))"
    using Suc.prems by (simp_all add: e1_def retransmitted_fields)
  have c: "move_response_wait_seconds (cfg e1) = ?W"
    by (simp add: e1_def retransmitted_fields)
  from Suc.prems(8) have r: "0 < r" "int j \<le> r - 1" by simp_all
  have split: "replicate (p * Suc j) Timeout @ tr
                 = replicate p Timeout @ (replicate (p * j) Timeout @ tr)"
    by (simp add: replicate_add [symmetric])
  have "await_loop lib None e ?W r (replicate (p * Suc j) Timeout @ tr)
          = await_loop lib None e1 ?W (r - 1) (replicate (p * j) Timeout @ tr)"
    unfolding split
    using await_one_cycle [of e ?W p lib r "replicate (p * j) Timeout @ tr"]
          Suc.prems(1,2,5,7) re r(1)
    by simp
  also have "\<dots> = await_loop lib None (retransmitted e1 f j) ?W (r - 1 - int j) tr"
    using Suc.IH [OF pre(1-3) Suc.prems(4) pre(4-6) r(2)] c by simp
  also have "retransmitted e1 f j = retransmitted e f (Suc j)"
    by (simp add: e1_def retransmitted_add)
  also have "r - 1 - int j = r - int (Suc j)" by simp
  finally show ?case .
qed

lemma go_handler_one_local_move:
  assumes "state e = GAME_ACTIVE" and "game e = Some g"
    and "last_position_moves e = move_list_uci lib g @ [mv]"
    and "validate_move lib g mv" and "1 \<le> max_retries (cfg e)"
    and "frame = fmt_move (local_callsign (cfg e)) (remote_callsign (cfg e))
                   (expected_move_num g) mv"
    and "fst (apply_move lib mv (fs e) g)"
  shows "\<exists>e0 g' m. from_uci lib mv = Some m
           \<and> move_stack (board g')
               = move_stack (board g) @ [stored lib (move_stack (board g)) m]
           \<and> game e0 = Some g' \<and> cfg e0 = cfg e \<and> radio_queue e0 = radio_queue e
           \<and> go_stop_event e0 = go_stop_event e
           \<and> sent e0 = sent e @ [(remote_callsign (cfg e), frame)]
           \<and> uci_lines e0 = uci_lines e @ [''info string TX: '' @ frame,
                                           ''info string Waiting for remote move via radio'']
           \<and> (\<forall>tr. go_handler lib e tr =
                  (case await_loop lib None e0 (move_response_wait_seconds (cfg e))
                          (max_retries (cfg e)) tr of
                     (e1, Blocked, r) \<Rightarrow> (e1, Waiting)
                   | (e1, Raised err, r) \<Rightarrow> (e1, Crashed err)
                   | (e1, Returned None, r) \<Rightarrow> (uci_out e1 ''bestmove 0000'', Done)
                   | (e1, Returned (Some remote_move), r) \<Rightarrow>
                       (uci_out e1 (''bestmove '' @ remote_move), Done)))"
proof -
  from assms(4) obtain m where m: "from_uci lib mv = Some m"
    and l: "legal lib (move_stack (board g)) m"
    by (auto simp: validate_move_def split: option.splits)
  from apply_move_valid [OF m l, of "fs e"]
  obtain ok fs' g' where a: "apply_move lib mv (fs e) g = (ok, fs', g')"
    and st: "move_stack (board g')
               = move_stack (board g) @ [stored lib (move_stack (board g)) m]"
    by blast
  with assms(7) have ok: "ok" by simp
  define e3 where "e3 = bridge_send (uci_out (e\<lparr>game := Some g', fs := fs'\<rparr>)
                          (''info string TX: '' @ frame)) (remote_callsign (cfg e)) frame"
  define e0 where "e0 = uci_out e3 ''info string Waiting for remote move via radio''"
  have t: "transmit_new_moves lib e g [mv] = (e3, True)"
    using assms(4,5,6) a ok
    by (simp add: apply_and_transmit_local_move_def Let_def e3_def uci_out_def bridge_send_def)
  have nm: "drop (length (move_list_uci lib g)) (last_position_moves e) = [mv]"
    using assms(3) by simp
  have f: "game e0 = Some g'" "cfg e0 = cfg e" "radio_queue e0 = radio_queue e"
    "go_stop_event e0 = go_stop_event e" "state e3 = GAME_ACTIVE" "game e3 = Some g'"
    "sent e0 = sent e @ [(remote_callsign (cfg e), frame)]"
    "uci_lines e0 = uci_lines e @ [''info string TX: '' @ frame,
                                  ''info string Waiting for remote move via radio'']"
    using assms(1) by (simp_all add: e0_def e3_def uci_out_def bridge_send_def)
  have "go_handler lib e tr =
          (case await_loop lib None e0 (move_response_wait_seconds (cfg e))
                  (max_retries (cfg e)) tr of
             (e1, Blocked, r) \<Rightarrow> (e1, Waiting)
           | (e1, Raised err, r) \<Rightarrow> (e1, Crashed err)
           | (e1, Returned None, r) \<Rightarrow> (uci_out e1 ''bestmove 0000'', Done)
           | (e1, Returned (Some remote_move), r) \<Rightarrow>
               (uci_out e1 (''bestmove '' @ remote_move), Done))" for tr
    using assms(1,2) nm t f(2,5,6)
    by (simp add: go_handler_def go_local_moves_def go_await_reply_def await_radio_move_def
                  Let_def e0_def [symmetric])
  with m st f show ?thesis by blast
qed


lemma move_message_cases:
  assumes "msg_type msg = MOVE"
  shows
   "(game e = None \<longrightarrow>
       process_radio_item lib e msg = Inr (send_error e ERR_NO_SESSION, None))
  \<and> (\<forall>g. game e = Some g \<and> move_num msg \<noteq> Some (expected_move_num g) \<longrightarrow>
       process_radio_item lib e msg = Inr (send_error e ERR_BAD_MOVE_NUM, None))
  \<and> (\<forall>g mv. game e = Some g \<and> move_num msg = Some (expected_move_num g)
             \<and> move msg = Some mv \<and> \<not> validate_move lib g mv \<longrightarrow>
       process_radio_item lib e msg = Inr (send_error e ERR_ILLEGAL_MOVE, None))
  \<and> (\<forall>code. game (send_error e code) = game e \<and> fs (send_error e code) = fs e
         \<and> sent (send_error e code) = sent e @ [(remote_callsign (cfg e),
              remote_callsign (cfg e) @ '' '' @ local_callsign (cfg e)
                @ '' JS8CHESS '' @ code @ '' >'')])
  \<and> ERR_NO_SESSION = ''ERR03'' \<and> ERR_BAD_MOVE_NUM = ''ERR02'' \<and> ERR_ILLEGAL_MOVE = ''ERR01''
  \<and> (\<forall>g mv. game e = Some g \<and> move_num msg = Some (expected_move_num g)
             \<and> move msg = Some mv \<and> validate_move lib g mv \<longrightarrow>
       (\<exists>e' g' m. process_radio_item lib e msg = Inr (e', Some mv)
           \<and> game e' = Some g' \<and> from_uci lib mv = Some m
           \<and> move_stack (board g')
               = move_stack (board g) @ [stored lib (move_stack (board g)) m]))
  \<and> (\<forall>raw lc rc fc. parse_message raw lc rc fc = Some msg \<longrightarrow>
         (\<exists>mv. move msg = Some mv \<and> py_lower mv = mv))"
proof (intro conjI allI impI)
  show "process_radio_item lib e msg = Inr (send_error e ERR_NO_SESSION, None)"
    if "game e = None"
    using that assms by (simp add: process_radio_item_def)
next
  fix g
  assume "game e = Some g \<and> move_num msg \<noteq> Some (expected_move_num g)"
  with assms show "process_radio_item lib e msg = Inr (send_error e ERR_BAD_MOVE_NUM, None)"
    by (simp add: process_radio_item_def)
next
  fix g mv
  assume "game e = Some g \<and> move_num msg = Some (expected_move_num g)
             \<and> move msg = Some mv \<and> \<not> validate_move lib g mv"
  with assms show "process_radio_item lib e msg = Inr (send_error e ERR_ILLEGAL_MOVE, None)"
    by (simp add: process_radio_item_def)
next
  fix code
  show "game (send_error e code) = game e" and "fs (send_error e code) = fs e"
    and "sent (send_error e code) = sent e @ [(remote_callsign (cfg e),
              remote_callsign (cfg e) @ '' '' @ local_callsign (cfg e)
                @ '' JS8CHESS '' @ code @ '' >'')]"
    by (simp_all add: send_error_def uci_out_def bridge_send_def fmt_error_def Let_def)
next
  show "ERR_NO_SESSION = ''ERR03''" "ERR_BAD_MOVE_NUM = ''ERR02''" "ERR_ILLEGAL_MOVE = ''ERR01''"
    by (simp_all add: ERR_NO_SESSION_def ERR_BAD_MOVE_NUM_def ERR_ILLEGAL_MOVE_def)
next
  fix g mv
  assume a: "game e = Some g \<and> move_num msg = Some (expected_move_num g)
             \<and> move msg = Some mv \<and> validate_move lib g mv"
  with process_move_success [OF assms, of e g mv lib]
  show "\<exists>e' g' m. process_radio_item lib e msg = Inr (e', Some mv)
           \<and> game e' = Some g' \<and> from_uci lib mv = Some m
           \<and> move_stack (board g')
               = move_stack (board g) @ [stored lib (move_stack (board g)) m]"
    by blast
next
  fix raw lc rc fc
  assume "parse_message raw lc rc fc = Some msg"
  then show "\<exists>mv. move msg = Some mv \<and> py_lower mv = mv"
    using assms by (rule parse_move_lower)
qed

lemma timeouts_retransmit_recorded_move:
  assumes "state e = GAME_ACTIVE" and "game e = Some g"
    and "radio_queue e = []" and "\<not> go_stop_event e"
    and "last_position_moves e = move_list_uci lib g @ [mv]"
    and "validate_move lib g mv"
    and "fst (apply_move lib mv (fs e) g)"
    and "\<forall>m. from_uci lib mv = Some m
           \<longrightarrow> uci lib (stored lib (move_stack (board g)) m) = mv"
    and "1 \<le> max_retries (cfg e)" and "0 < move_response_wait_seconds (cfg e)"
    and "frame = fmt_move (local_callsign (cfg e)) (remote_callsign (cfg e))
                   (expected_move_num g) mv"
  shows "(\<forall>n. \<exists>k. int k \<le> max_retries (cfg e)
            \<and> sent (fst (go_handler lib e (replicate n Timeout)))
                = sent e @ replicate (Suc k) (remote_callsign (cfg e), frame))
       \<and> (\<forall>j. int j \<le> max_retries (cfg e) \<longrightarrow>
            (\<exists>e'. go_handler lib e
                    (replicate (polls_per_cycle (move_response_wait_seconds (cfg e)) * j) Timeout)
                  = (e', Waiting)
               \<and> sent e' = sent e @ replicate (Suc j) (remote_callsign (cfg e), frame)))
       \<and> (\<exists>e'. go_handler lib e
                  (replicate (polls_per_cycle (move_response_wait_seconds (cfg e))
                              * Suc (nat (max_retries (cfg e)))) Timeout)
               = (e', Done)
            \<and> sent e' = sent e @ replicate (Suc (nat (max_retries (cfg e))))
                                   (remote_callsign (cfg e), frame)
            \<and> uci_lines e' = uci_lines e
                 @ [''info string TX: '' @ frame,
                    ''info string Waiting for remote move via radio'']
                 @ replicate (nat (max_retries (cfg e))) (''info string RETRY TX: '' @ frame)
                 @ [''info string ERROR: no response after max retries'', ''bestmove 0000''])"
proof -
  let ?W = "move_response_wait_seconds (cfg e)"
  let ?R = "max_retries (cfg e)"
  let ?to = "remote_callsign (cfg e)"
  from go_handler_one_local_move [OF assms(1,2,5,6,9,11,7)]
  obtain e0 g' m where m: "from_uci lib mv = Some m"
    and st: "move_stack (board g')
               = move_stack (board g) @ [stored lib (move_stack (board g)) m]"
    and e0: "game e0 = Some g'" "cfg e0 = cfg e" "radio_queue e0 = radio_queue e"
      "go_stop_event e0 = go_stop_event e"
      "sent e0 = sent e @ [(?to, frame)]"
      "uci_lines e0 = uci_lines e @ [''info string TX: '' @ frame,
                                    ''info string Waiting for remote move via radio'']"
    and go: "\<And>tr. go_handler lib e tr =
                  (case await_loop lib None e0 ?W ?R tr of
                     (e1, Blocked, r) \<Rightarrow> (e1, Waiting)
                   | (e1, Raised err, r) \<Rightarrow> (e1, Crashed err)
                   | (e1, Returned None, r) \<Rightarrow> (uci_out e1 ''bestmove 0000'', Done)
                   | (e1, Returned (Some remote_move), r) \<Rightarrow>
                       (uci_out e1 (''bestmove '' @ remote_move), Done))"
    by blast
  from assms(8) m have u: "uci lib (stored lib (move_stack (board g)) m) = mv" by simp
  have f: "frame = fmt_move (local_callsign (cfg e0)) (remote_callsign (cfg e0))
                     (int (length (move_stack (board g))) + 1)
                     (uci lib (stored lib (move_stack (board g)) m))"
    using assms(11) u e0(2) by (simp add: expected_move_num_def)
  have q: "radio_queue e0 = []" "\<not> go_stop_event e0" "0 < move_response_wait_seconds (cfg e0)"
    using assms(3,4,10) e0 by simp_all
  have sent_k: "sent (retransmitted e0 frame k) = sent e @ replicate (Suc k) (?to, frame)" for k
    using e0 by (simp add: retransmitted_fields replicate_append_same)
  show ?thesis
  proof (intro conjI allI impI)
    fix n
    from await_timeouts_bounded [OF q(1,2) e0(1) st q(3) q(3) f, of ?R n]
    obtain k where k: "int k \<le> max 0 ?R"
      and d: "await_loop lib None e0 (move_response_wait_seconds (cfg e0)) ?R (replicate n Timeout)
                = (retransmitted e0 frame k, Blocked, [])
            \<or> int k = max 0 ?R
              \<and> (\<exists>tr. await_loop lib None e0 (move_response_wait_seconds (cfg e0)) ?R
                        (replicate n Timeout)
                   = (uci_out (retransmitted e0 frame k)
                        ''info string ERROR: no response after max retries'',
                      Returned None, tr))"
      by blast
    from d have "sent (fst (go_handler lib e (replicate n Timeout)))
                   = sent e @ replicate (Suc k) (?to, frame)"
      using sent_k [of k] e0(2) by (auto simp: go uci_out_def)
    with k assms(9) show "\<exists>k. int k \<le> ?R
            \<and> sent (fst (go_handler lib e (replicate n Timeout)))
                = sent e @ replicate (Suc k) (?to, frame)"
      by (intro exI [of _ k]) simp
  next
    fix j
    assume j: "int j \<le> ?R"
    from await_cycles [OF q(1,2) e0(1) st q(3) f, of "polls_per_cycle ?W" j ?R "[]"] j
    have "await_loop lib None e0 ?W ?R (replicate (polls_per_cycle ?W * j) Timeout)
            = await_loop lib None (retransmitted e0 frame j) ?W (?R - int j) []"
      using e0(2) by simp
    also have "\<dots> = (retransmitted e0 frame j, Blocked, [])"
      using q assms(10) by (simp add: retransmitted_fields)
    finally have "go_handler lib e (replicate (polls_per_cycle ?W * j) Timeout)
                    = (retransmitted e0 frame j, Waiting)"
      by (simp add: go)
    with sent_k [of j]
    show "\<exists>e'. go_handler lib e (replicate (polls_per_cycle ?W * j) Timeout) = (e', Waiting)
               \<and> sent e' = sent e @ replicate (Suc j) (?to, frame)"
      by simp
  next
    let ?N = "polls_per_cycle ?W * Suc (nat ?R)"
    from assms(9) have r: "int (nat ?R) = ?R" by simp
    from await_exhaust [OF q(1,2) e0(1) st q(3) f, of "polls_per_cycle ?W" "nat ?R" "[]"]
    have "await_loop lib None e0 ?W ?R (replicate ?N Timeout)
            = (uci_out (retransmitted e0 frame (nat ?R))
                 ''info string ERROR: no response after max retries'', Returned None, [])"
      using e0(2) r by simp
    then have "go_handler lib e (replicate ?N Timeout)
            = (uci_out (uci_out (retransmitted e0 frame (nat ?R))
                 ''info string ERROR: no response after max retries'') ''bestmove 0000'', Done)"
      by (simp add: go)
    then show "\<exists>e'. go_handler lib e (replicate ?N Timeout) = (e', Done)
            \<and> sent e' = sent e @ replicate (Suc (nat ?R)) (?to, frame)
            \<and> uci_lines e' = uci_lines e
                 @ [''info string TX: '' @ frame,
                    ''info string Waiting for remote move via radio'']
                 @ replicate (nat ?R) (''info string RETRY TX: '' @ frame)
                 @ [''info string ERROR: no response after max retries'', ''bestmove 0000'']"
      using sent_k [of "nat ?R"] e0(6)
      by (simp add: uci_out_def retransmitted_fields)
  qed
qed


section \<open>Properties of the protocol codec\<close>

text \<open>
  C2, as the code has it. \<open>parse_message\<close> accepts a frame only when it begins with
  \<open><remote> <local> JS8CHESS\<close> (or with the bare \<open><local> JS8CHESS\<close>), whatever
  its kind. The claim that the station which formatted an Acceptance or a ResyncOk parses
  it back fails: with the local callsign \<open>CALLSIGN\<close> and the remote callsign
  \<open>SWL\<close>, both frames are not-for-us.
\<close>

theorem acceptance_roundtrip_counterexample:
  "is_callsign ''CALLSIGN'' \<and> is_callsign ''SWL'' \<and> is_timestamp ''202506011430''
   \<and> parse_message (fmt_acceptance ''CALLSIGN'' ''SWL'' ''202506011430'' ''B'')
        ''CALLSIGN'' ''SWL'' [] = None
   \<and> parse_message (fmt_resync_ok ''CALLSIGN'' ''SWL'' ''202506011430'' 3)
        ''CALLSIGN'' ''SWL'' [] = None"
  by code_simp

text \<open>
  C2, amended. A frame beginning with \<open><remote> <local> JS8CHESS\<close> is accepted as
  directed to us, for acceptance and resync-ok kinds as for the others: an Acceptance or
  a ResyncOk that the station \<open>L\<close> formats for its peer \<open>R\<close> begins with
  \<open>L R JS8CHESS\<close> and is parsed by the peer, whose local callsign is \<open>R\<close> and
  whose remote callsign is \<open>L\<close>. For all uppercase callsigns \<open>L\<close> and \<open>R\<close>,
  every 12-digit timestamp, every color in W, B and every ordinal \<open>n \<ge> 0\<close>, the
  peer's parse yields the Acceptance with that timestamp and color, and the ResyncOk with
  that timestamp and ordinal.
\<close>

theorem peer_parses_acceptance_and_resync_ok:
  assumes "is_callsign L" and "is_callsign R" and "is_timestamp ts"
    and "c = ''W'' \<or> c = ''B''" and "0 \<le> n"
  shows "parse_message (fmt_acceptance L R ts c) R L []
           = Some ((ota L R ACCEPTANCE)\<lparr>timestamp := Some ts, color := Some c\<rparr>)
       \<and> parse_message (fmt_resync_ok L R ts n) R L []
           = Some ((ota L R RESYNC_OK)\<lparr>timestamp := Some ts, resync_move_num := Some n\<rparr>)"
proof
  from assms(4) obtain ch where "c = [ch]" and "ch = CHR ''W'' \<or> ch = CHR ''B''"
    by auto
  with parse_acceptance_at_peer [OF assms(1-3), of ch]
  show "parse_message (fmt_acceptance L R ts c) R L []
           = Some ((ota L R ACCEPTANCE)\<lparr>timestamp := Some ts, color := Some c\<rparr>)"
    by simp
next
  from assms(5) have "n = int (nat n)" by simp
  with parse_resync_ok_at_peer [OF assms(1-3), of "nat n"]
  show "parse_message (fmt_resync_ok L R ts n) R L []
           = Some ((ota L R RESYNC_OK)\<lparr>timestamp := Some ts, resync_move_num := Some n\<rparr>)"
    by simp
qed

theorem peer_parses_acceptance_and_resync_ok_witness:
  "parse_message (fmt_acceptance ''CALLSIGN'' ''SWL'' ''202506011430'' ''B'') ''SWL'' ''CALLSIGN'' []
     = Some ((ota ''CALLSIGN'' ''SWL'' ACCEPTANCE)
               \<lparr>timestamp := Some ''202506011430'', color := Some ''B''\<rparr>)
   \<and> parse_message (fmt_resync_ok ''CALLSIGN'' ''SWL'' ''202506011430'' 3) ''SWL'' ''CALLSIGN'' []
     = Some ((ota ''CALLSIGN'' ''SWL'' RESYNC_OK)
               \<lparr>timestamp := Some ''202506011430'', resync_move_num := Some 3\<rparr>)"
proof -
  have "is_callsign ''CALLSIGN''" and "is_callsign ''SWL''" and "is_timestamp ''202506011430''"
    by code_simp+
  from peer_parses_acceptance_and_resync_ok [OF this, of "''B''" 3] show ?thesis
    by simp
qed


section \<open>Properties of the session\<close>

text \<open>
  C5. In every state that a session reaches from its creation by \<open>apply_move\<close>,
  \<open>restore_to_ply\<close> and \<open>set_result\<close> (on whatever the notation files hold
  at the time), \<open>expected_move_num\<close> is the length of the move stack plus one, and
  every successful \<open>apply_move\<close> from such a state increases it by exactly 1.
\<close>

theorem expected_move_num_invariant:
  assumes "run_ops lib (fsys0, GameSession_init gid lc rc col) ops = (fsys, s)"
  shows "expected_move_num s = int (length (move_stack (board s))) + 1
       \<and> (\<forall>mv fsys' s'. apply_move lib mv fsys s = (True, fsys', s')
             \<longrightarrow> expected_move_num s' = expected_move_num s + 1)"
proof (intro conjI allI impI)
  show "expected_move_num s = int (length (move_stack (board s))) + 1"
    by (simp add: expected_move_num_def)
next
  fix mv fsys' s'
  assume "apply_move lib mv fsys s = (True, fsys', s')"
  from apply_move_success_stack [OF this]
  show "expected_move_num s' = expected_move_num s + 1"
    by (auto simp: expected_move_num_def)
qed

theorem expected_move_num_invariant_witness:
  "expected_move_num two_ply_session = 3
   \<and> fst (apply_move book_lib ''g1f3'' two_ply_files two_ply_session)
   \<and> expected_move_num (snd (snd (apply_move book_lib ''g1f3'' two_ply_files two_ply_session)))
       = 4"
proof -
  have r: "run_ops book_lib (no_files, GameSession_init ''202506011430'' ''CALLSIGN'' ''SWL'' WHITE)
             [Apply_move ''e2e4'', Apply_move ''e7e5''] = (two_ply_files, two_ply_session)"
    by (simp add: two_ply_files_def two_ply_session_def white_session_def)
  have a: "fst (apply_move book_lib ''g1f3'' two_ply_files two_ply_session)"
    by code_simp
  then have b: "apply_move book_lib ''g1f3'' two_ply_files two_ply_session
      = (True, fst (snd (apply_move book_lib ''g1f3'' two_ply_files two_ply_session)),
               snd (snd (apply_move book_lib ''g1f3'' two_ply_files two_ply_session)))"
    by (cases "apply_move book_lib ''g1f3'' two_ply_files two_ply_session") simp
  from expected_move_num_invariant [OF r]
  have e: "expected_move_num two_ply_session = int (length (move_stack (board two_ply_session))) + 1"
    and st: "\<forall>mv fsys' s'. apply_move book_lib mv two_ply_files two_ply_session = (True, fsys', s')
               \<longrightarrow> expected_move_num s' = expected_move_num two_ply_session + 1"
    by blast+
  from st [rule_format, OF b] e a two_ply_stack show ?thesis
    by simp
qed

text \<open>
  C6, on the code. \<open>apply_move\<close> calls \<open>_save_pgn\<close> inside the \<open>try\<close> whose
  handler catches \<open>ValueError\<close> to report a move that does not parse, and
  \<open>_save_pgn\<close> itself catches \<open>OSError\<close> only. When opening the notation file
  raises \<open>ValueError\<close>, \<open>apply_move\<close> therefore returns false for a move that
  parses and is legal, after it has pushed the move on the board and added it to the
  notation document. On a new session whose notation path holds a NUL character, the
  legal move \<open>e2e4\<close> is refused, and afterwards the move stack and the main line of
  the document both hold \<open>e2e4\<close>.
\<close>

theorem apply_move_false_after_push:
  "validate_move book_lib nul_session ''e2e4''
   \<and> from_uci book_lib ''e2e4'' = Some ''e2e4''
   \<and> legal book_lib (move_stack (board nul_session)) ''e2e4''
   \<and> move_stack (board nul_session) = []
   \<and> mainline_moves (root (pgn_game nul_session)) = []
   \<and> \<not> fst (apply_move book_lib ''e2e4'' no_files nul_session)
   \<and> move_stack (board (snd (snd (apply_move book_lib ''e2e4'' no_files nul_session))))
       = [''e2e4'']
   \<and> mainline_moves
        (root (pgn_game (snd (snd (apply_move book_lib ''e2e4'' no_files nul_session)))))
       = [''e2e4'']
   \<and> expected_move_num (snd (snd (apply_move book_lib ''e2e4'' no_files nul_session))) = 2"
  by code_simp

text \<open>
  C3, on the code. \<open>restore_to_ply\<close> does not check that the file holds as many
  plies as it is asked for, nor that the file held game notation: the replay loop ends
  with the main line, and \<open>read_game\<close> returns a document without moves for text it
  cannot parse. On the file of the two-ply session, \<open>restore_to_ply 5\<close> returns
  true with a move stack of two plies. When that file holds text that is not game
  notation, \<open>restore_to_ply 2\<close> returns true and the session, whose move stack held
  two plies, is left with an empty board and an empty document.
\<close>

theorem restore_to_ply_short_or_malformed_file:
  "move_stack (board two_ply_session) = [''e2e4'', ''e7e5'']
   \<and> files two_ply_files (pgn_path two_ply_session) = Some (Parsed (pgn_game two_ply_session))
   \<and> fst (restore_to_ply book_lib 5 two_ply_files two_ply_session)
   \<and> move_stack (board (snd (restore_to_ply book_lib 5 two_ply_files two_ply_session)))
       = [''e2e4'', ''e7e5'']
   \<and> files garbage_files (pgn_path two_ply_session) = Some Garbage
   \<and> fst (restore_to_ply book_lib 2 garbage_files two_ply_session)
   \<and> move_stack (board (snd (restore_to_ply book_lib 2 garbage_files two_ply_session))) = []
   \<and> mainline_moves
        (root (pgn_game (snd (restore_to_ply book_lib 2 garbage_files two_ply_session)))) = []"
  by code_simp


section \<open>Properties of the controller\<close>

text \<open>
  C1, on the code. While a game is active, the wait of the worker ends at the first
  message it takes from the inbound queue, whatever its kind: \<open>_await_radio_move\<close>
  returns what \<open>_process_radio_item\<close> returns, which is \<open>None\<close> for an Ack, a
  ResyncOk, an Error report and a Move answered with an error, and the worker then writes
  \<open>bestmove 0000\<close> and ends. After the local move \<open>e2e4\<close>, each of these four
  messages makes the worker end with \<open>bestmove 0000\<close>, and the valid remote move
  \<open>2E7E5\<close> that follows it is not applied; alone, that move is applied and answered
  with \<open>bestmove e7e5\<close>.
\<close>

theorem wait_ends_on_first_item:
  "observe
     (go_handler book_lib white_engine
        [Rx ''SWL'' ''CALLSIGN'' ''SWL CALLSIGN JS8CHESS >'' noon,
         Rx ''SWL'' ''CALLSIGN'' ''SWL CALLSIGN JS8CHESS 2E7E5'' noon])
     = (Done, ''bestmove 0000'', Some [''e2e4''])
   \<and> observe
     (go_handler book_lib white_engine
        [Rx ''SWL'' ''CALLSIGN'' ''SWL CALLSIGN JS8CHESS OK RS 202506011430 MN=2'' noon,
         Rx ''SWL'' ''CALLSIGN'' ''SWL CALLSIGN JS8CHESS 2E7E5'' noon])
     = (Done, ''bestmove 0000'', Some [''e2e4''])
   \<and> observe
     (go_handler book_lib white_engine
        [Rx ''SWL'' ''CALLSIGN'' ''SWL CALLSIGN JS8CHESS ERR04 >'' noon,
         Rx ''SWL'' ''CALLSIGN'' ''SWL CALLSIGN JS8CHESS 2E7E5'' noon])
     = (Done, ''bestmove 0000'', Some [''e2e4''])
   \<and> observe
     (go_handler book_lib white_engine
        [Rx ''SWL'' ''CALLSIGN'' ''SWL CALLSIGN JS8CHESS 2E2E4'' noon,
         Rx ''SWL'' ''CALLSIGN'' ''SWL CALLSIGN JS8CHESS 2E7E5'' noon])
     = (Done, ''bestmove 0000'', Some [''e2e4''])
   \<and> observe
     (go_handler book_lib white_engine
        [Rx ''SWL'' ''CALLSIGN'' ''SWL CALLSIGN JS8CHESS 2E7E5'' noon])
     = (Done, ''bestmove e7e5'', Some [''e2e4'', ''e7e5''])"
  by code_simp


text \<open>
  C4, on the code. A worker that starts before a game is established waits in
  \<open>_await_radio_move\<close> as well, and processes the messages of the inbound queue
  there. When the peer's proposal and then its first move \<open>1E2E4\<close> arrive during that
  wait, the move passes the checks of ordinal and legality and is applied, but the worker
  keeps the returned move only to test it against \<open>None\<close>: it goes on to wait for
  another remote move and never writes \<open>bestmove e2e4\<close>. With no further event it
  is still waiting; when the polls time out it retransmits and, the retries used up, ends
  with \<open>bestmove 0000\<close>, the only \<open>bestmove\<close> line of the run.
\<close>

theorem first_wait_drops_applied_move:
  "state (Engine_init quick_config :: string engine) = NO_GAME
   \<and> observe
       (go_handler book_lib (Engine_init quick_config)
          [Rx ''SWL'' ''CALLSIGN'' ''SWL CALLSIGN JS8CHESS NEW W'' noon,
           Rx ''SWL'' ''CALLSIGN'' ''SWL CALLSIGN JS8CHESS 1E2E4'' noon])
       = (Waiting, ''info string Waiting for remote move via radio'', Some [''e2e4''])
   \<and> observe
       (go_handler book_lib (Engine_init quick_config)
          ([Rx ''SWL'' ''CALLSIGN'' ''SWL CALLSIGN JS8CHESS NEW W'' noon,
            Rx ''SWL'' ''CALLSIGN'' ''SWL CALLSIGN JS8CHESS 1E2E4'' noon]
           @ replicate 6 Timeout))
       = (Done, ''bestmove 0000'', Some [''e2e4''])
   \<and> filter (\<lambda>line. startswith line ''bestmove'' \<or> startswith line ''info string RX'')
        (uci_lines (fst
          (go_handler book_lib (Engine_init quick_config)
             ([Rx ''SWL'' ''CALLSIGN'' ''SWL CALLSIGN JS8CHESS NEW W'' noon,
               Rx ''SWL'' ''CALLSIGN'' ''SWL CALLSIGN JS8CHESS 1E2E4'' noon]
              @ replicate 6 Timeout))))
       = [''info string RX move: 1E2E4'', ''bestmove 0000'']"
  by code_simp

text \<open>
  C7. With auto-accept enabled and no game active (any engine state but GameActive, so
  NoGame in particular), an inbound NewProposal that proposes the color \<open>c\<close> moves
  the engine to GameActive with a newly created session: its local color is the opposite
  of \<open>c\<close>, White is to move on an empty board, and its game id is the timestamp
  that the handler minted. Exactly one frame is handed to the bridge, the Acceptance
  \<open><local> <remote> JS8CHESS <timestamp> <local color>\<close> with that same
  timestamp. The timestamp is the reading of the clock at that moment: for a clock that
  shows a four-digit year it has 12 decimal digits, of which the first four read as the
  year and the following pairs as the month, the day, the hour and the minute.
\<close>

theorem auto_accept_new_proposal:
  assumes "auto_accept (cfg e)" and "state e \<noteq> GAME_ACTIVE"
    and "color msg = Some c" and "c = ''W'' \<or> c = ''B''"
    and "1000 \<le> year now" "year now \<le> 9999" "month now < 100" "day now < 100"
      "hour now < 100" "minute now < 100"
  shows "\<exists>ts g. state (handle_new_proposal now e msg) = GAME_ACTIVE
          \<and> game (handle_new_proposal now e msg) = Some g
          \<and> game_id g = ts
          \<and> local_color g = (if c = ''W'' then BLACK else WHITE)
          \<and> remote_color g = (\<not> local_color g)
          \<and> move_stack (board g) = [] \<and> turn (board g) = WHITE
          \<and> sent (handle_new_proposal now e msg) = sent e @ [(remote_callsign (cfg e),
                 local_callsign (cfg e) @ '' '' @ remote_callsign (cfg e) @ '' JS8CHESS ''
                   @ ts @ '' '' @ (if c = ''W'' then ''B'' else ''W''))]
          \<and> length ts = 12 \<and> list_all is_digit ts
          \<and> int_of_digits (take 4 ts) = int (year now)
          \<and> int_of_digits (take 2 (drop 4 ts)) = int (month now)
          \<and> int_of_digits (take 2 (drop 6 ts)) = int (day now)
          \<and> int_of_digits (take 2 (drop 8 ts)) = int (hour now)
          \<and> int_of_digits (take 2 (drop 10 ts)) = int (minute now)"
proof -
  have u: "py_upper ''B'' = ''B''" "py_upper ''W'' = ''W''"
    by (simp_all add: py_upper_def upper_char_def)
  define ts where "ts = now_timestamp now"
  define g :: "'a GameSession" where
    "g = GameSession_init ts (local_callsign (cfg e)) (remote_callsign (cfg e))
           (if c = ''W'' then BLACK else WHITE)"
  have h: "state (handle_new_proposal now e msg) = GAME_ACTIVE"
    "game (handle_new_proposal now e msg) = Some g"
    "sent (handle_new_proposal now e msg) = sent e @ [(remote_callsign (cfg e),
                 local_callsign (cfg e) @ '' '' @ remote_callsign (cfg e) @ '' JS8CHESS ''
                   @ ts @ '' '' @ (if c = ''W'' then ''B'' else ''W''))]"
    using assms(1-4)
    by (auto simp: handle_new_proposal_def Let_def uci_out_def bridge_send_def
                   fmt_acceptance_def u ts_def g_def)
  have s: "game_id g = ts" "local_color g = (if c = ''W'' then BLACK else WHITE)"
    "remote_color g = (\<not> local_color g)" "move_stack (board g) = []"
    "turn (board g) = WHITE"
    by (simp_all add: g_def GameSession_init_def Board_init_def Let_def)
  from now_timestamp_12 [OF assms(5-10)] now_timestamp_fields [OF assms(5-10)] h s
  show ?thesis unfolding ts_def [symmetric] by blast
qed

theorem auto_accept_new_proposal_witness:
  "\<exists>ts g. state (handle_new_proposal noon (Engine_init DEFAULT_CONFIG :: string engine)
              ((ota ''SWL'' ''CALLSIGN'' NEW_PROPOSAL)\<lparr>color := Some ''W''\<rparr>)) = GAME_ACTIVE
     \<and> game (handle_new_proposal noon (Engine_init DEFAULT_CONFIG :: string engine)
              ((ota ''SWL'' ''CALLSIGN'' NEW_PROPOSAL)\<lparr>color := Some ''W''\<rparr>)) = Some g
     \<and> game_id g = ts \<and> local_color g = BLACK
     \<and> sent (handle_new_proposal noon (Engine_init DEFAULT_CONFIG :: string engine)
              ((ota ''SWL'' ''CALLSIGN'' NEW_PROPOSAL)\<lparr>color := Some ''W''\<rparr>))
         = [(''SWL'', ''CALLSIGN SWL JS8CHESS '' @ ts @ '' B'')]
     \<and> length ts = 12
     \<and> int_of_digits (take 4 ts) = 2025
     \<and> int_of_digits (take 2 (drop 4 ts)) = 6
     \<and> int_of_digits (take 2 (drop 6 ts)) = 1
     \<and> int_of_digits (take 2 (drop 8 ts)) = 14
     \<and> int_of_digits (take 2 (drop 10 ts)) = 30"
proof -
  have "auto_accept (cfg (Engine_init DEFAULT_CONFIG :: string engine))"
    and "state (Engine_init DEFAULT_CONFIG :: string engine) \<noteq> GAME_ACTIVE"
    and "color ((ota ''SWL'' ''CALLSIGN'' NEW_PROPOSAL)\<lparr>color := Some ''W''\<rparr>) = Some ''W''"
    and "1000 \<le> year noon" "year noon \<le> 9999" "month noon < 100" "day noon < 100"
      "hour noon < 100" "minute noon < 100"
    by (simp_all add: Engine_init_def DEFAULT_CONFIG_def ota_def noon_def)
  from auto_accept_new_proposal [OF this(1-3) _ this(4-9)]
  obtain ts and g :: "string GameSession" where
    "state (handle_new_proposal noon (Engine_init DEFAULT_CONFIG :: string engine)
              ((ota ''SWL'' ''CALLSIGN'' NEW_PROPOSAL)\<lparr>color := Some ''W''\<rparr>)) = GAME_ACTIVE
     \<and> game (handle_new_proposal noon (Engine_init DEFAULT_CONFIG :: string engine)
              ((ota ''SWL'' ''CALLSIGN'' NEW_PROPOSAL)\<lparr>color := Some ''W''\<rparr>)) = Some g
     \<and> game_id g = ts \<and> local_color g = BLACK
     \<and> sent (handle_new_proposal noon (Engine_init DEFAULT_CONFIG :: string engine)
              ((ota ''SWL'' ''CALLSIGN'' NEW_PROPOSAL)\<lparr>color := Some ''W''\<rparr>))
         = [(''SWL'', ''CALLSIGN SWL JS8CHESS '' @ ts @ '' B'')]
     \<and> length ts = 12
     \<and> int_of_digits (take 4 ts) = 2025
     \<and> int_of_digits (take 2 (drop 4 ts)) = 6
     \<and> int_of_digits (take 2 (drop 6 ts)) = 1
     \<and> int_of_digits (take 2 (drop 8 ts)) = 14
     \<and> int_of_digits (take 2 (drop 10 ts)) = 30"
    by (auto simp: Engine_init_def DEFAULT_CONFIG_def noon_def)
  then show ?thesis by blast
qed

text \<open>
  C8. When a ResyncRequest \<open>RS <timestamp> MN=n\<close> is handled while a session is
  active: if the timestamp is not the session's game id, the reply is ERR05; otherwise
  the handler attempts \<open>restore_to_ply (n - 1)\<close>, and replies
  \<open><local> <remote> JS8CHESS OK RS <id> MN=n\<close> with the restored session in place
  when the restore succeeds, and ERR05 with the session unchanged when it fails. The
  ERR05 reply is the frame \<open><remote> <local> JS8CHESS ERR05 >\<close>.
\<close>

theorem resync_request_replies:
  assumes "game e = Some g" and "resync_move_num msg = Some n"
  shows "(timestamp msg \<noteq> Some (game_id g) \<longrightarrow>
            handle_resync_request lib e msg = Inr (send_error e ERR_DESYNC))
       \<and> (timestamp msg = Some (game_id g) \<and> \<not> fst (restore_to_ply lib (n - 1) (fs e) g) \<longrightarrow>
            handle_resync_request lib e msg = Inr (send_error e ERR_DESYNC))
       \<and> (timestamp msg = Some (game_id g) \<and> fst (restore_to_ply lib (n - 1) (fs e) g) \<longrightarrow>
            (\<exists>e'. handle_resync_request lib e msg = Inr e'
               \<and> game e' = Some (snd (restore_to_ply lib (n - 1) (fs e) g))
               \<and> sent e' = sent e @ [(remote_callsign (cfg e),
                     local_callsign (cfg e) @ '' '' @ remote_callsign (cfg e)
                       @ '' JS8CHESS OK RS '' @ game_id g @ '' MN='' @ str_int n)]))
       \<and> sent (send_error e ERR_DESYNC) = sent e @ [(remote_callsign (cfg e),
             remote_callsign (cfg e) @ '' '' @ local_callsign (cfg e) @ '' JS8CHESS ERR05 >'')]
       \<and> game (send_error e ERR_DESYNC) = game e"
proof (intro conjI impI)
  show "handle_resync_request lib e msg = Inr (send_error e ERR_DESYNC)"
    if "timestamp msg \<noteq> Some (game_id g)"
    using that assms by (simp add: handle_resync_request_def)
next
  assume a: "timestamp msg = Some (game_id g) \<and> \<not> fst (restore_to_ply lib (n - 1) (fs e) g)"
  obtain ok g' where r: "restore_to_ply lib (n - 1) (fs e) g = (ok, g')"
    by (cases "restore_to_ply lib (n - 1) (fs e) g")
  with a have "\<not> ok" by simp
  with r have "g' = g" using restore_failure_keeps [of lib "n - 1" "fs e" g g'] by simp
  have eq: "e\<lparr>game := Some g\<rparr> = e"
    using assms(1) by (cases e) simp
  from r a assms \<open>\<not> ok\<close> \<open>g' = g\<close>
  show "handle_resync_request lib e msg = Inr (send_error e ERR_DESYNC)"
    by (simp add: handle_resync_request_def Let_def eq)
next
  assume a: "timestamp msg = Some (game_id g) \<and> fst (restore_to_ply lib (n - 1) (fs e) g)"
  obtain ok g' where r: "restore_to_ply lib (n - 1) (fs e) g = (ok, g')"
    by (cases "restore_to_ply lib (n - 1) (fs e) g")
  with a have ok by simp
  have gid: "game_id g' = game_id g"
    using r by (rule restore_keeps_game_id)
  show "\<exists>e'. handle_resync_request lib e msg = Inr e'
               \<and> game e' = Some (snd (restore_to_ply lib (n - 1) (fs e) g))
               \<and> sent e' = sent e @ [(remote_callsign (cfg e),
                     local_callsign (cfg e) @ '' '' @ remote_callsign (cfg e)
                       @ '' JS8CHESS OK RS '' @ game_id g @ '' MN='' @ str_int n)]"
    using r a assms \<open>ok\<close> gid
    by (simp add: handle_resync_request_def Let_def uci_out_def bridge_send_def fmt_resync_ok_def)
next
  show "sent (send_error e ERR_DESYNC) = sent e @ [(remote_callsign (cfg e),
             remote_callsign (cfg e) @ '' '' @ local_callsign (cfg e) @ '' JS8CHESS ERR05 >'')]"
    by (simp add: send_error_effect ERR_DESYNC_def)
next
  show "game (send_error e ERR_DESYNC) = game e"
    by (simp add: send_error_effect)
qed

theorem resync_request_replies_witness:
  "(\<exists>e'. handle_resync_request book_lib resync_engine resync_msg = Inr e'
        \<and> map_option (\<lambda>g. move_stack (board g)) (game e') = Some [''e2e4'']
        \<and> sent e' = sent resync_engine
            @ [(''SWL'', ''CALLSIGN SWL JS8CHESS OK RS 202506011430 MN=2'')])
   \<and> (\<exists>e'. handle_resync_request book_lib resync_engine stale_resync_msg = Inr e'
        \<and> game e' = Some two_ply_session
        \<and> sent e' = sent resync_engine @ [(''SWL'', ''SWL CALLSIGN JS8CHESS ERR05 >'')])
   \<and> (\<exists>e'. handle_resync_request book_lib (resync_engine\<lparr>fs := no_files\<rparr>) resync_msg = Inr e'
        \<and> game e' = Some two_ply_session
        \<and> sent e' = sent resync_engine @ [(''SWL'', ''SWL CALLSIGN JS8CHESS ERR05 >'')])"
proof -
  have g: "game resync_engine = Some two_ply_session"
    and g': "game (resync_engine\<lparr>fs := no_files\<rparr>) = Some two_ply_session"
    and f: "fs resync_engine = two_ply_files"
    by (simp_all add: resync_engine_def)
  have c: "remote_callsign (cfg resync_engine) = ''SWL''"
          "local_callsign (cfg resync_engine) = ''CALLSIGN''"
    by code_simp+
  have m: "resync_move_num resync_msg = Some 2" "resync_move_num stale_resync_msg = Some 2"
          "timestamp resync_msg = Some ''202506011430''"
          "timestamp stale_resync_msg = Some ''202401010000''"
    by (simp_all add: resync_msg_def stale_resync_msg_def ota_def)
  have i: "game_id two_ply_session = ''202506011430''"
    by code_simp
  have s: "str_int 2 = ''2''"
    by code_simp
  have r1: "fst (restore_to_ply book_lib 1 two_ply_files two_ply_session)"
    by code_simp
  have r2: "move_stack (board (snd (restore_to_ply book_lib 1 two_ply_files two_ply_session)))
              = [''e2e4'']"
    by code_simp
  have r3: "\<not> fst (restore_to_ply book_lib 1 no_files two_ply_session)"
    by code_simp
  from resync_request_replies [OF g m(1), of book_lib]
       resync_request_replies [OF g m(2), of book_lib]
       resync_request_replies [OF g' m(1), of book_lib] g f c m i s r1 r2 r3
  show ?thesis by auto
qed


text \<open>
  C9, on the code. The first transmission of a local move carries the coordinates as the
  front-end wrote them, and a retransmission is built anew from the last entry of the
  move stack, which holds the move as the rules library recorded it. After
  \<open>e2e4 e7e5 g1f3 b8c6 f1c4 f8c5\<close> the front-end's castling move \<open>e1h1\<close> is
  legal and is transmitted as \<open>7E1H1\<close>; the library records it as \<open>e1g1\<close>,
  and each of the two retransmissions is the frame \<open>7E1G1\<close>. After the retries the
  worker ends with \<open>bestmove 0000\<close>.
\<close>

theorem retransmission_differs_from_first_frame:
  "state castle_engine = GAME_ACTIVE
   \<and> map_option (\<lambda>g. move_stack (board g)) (game castle_engine) = Some castle_line
   \<and> last_position_moves castle_engine = castle_line @ [''e1h1'']
   \<and> validate_move castle_lib castle_session ''e1h1''
   \<and> sent (fst (go_handler castle_lib castle_engine []))
       = sent castle_engine @ [(''SWL'', ''SWL CALLSIGN JS8CHESS 7E1H1'')]
   \<and> sent (fst (go_handler castle_lib castle_engine (replicate 2 Timeout)))
       = sent castle_engine @ [(''SWL'', ''SWL CALLSIGN JS8CHESS 7E1H1''),
                               (''SWL'', ''SWL CALLSIGN JS8CHESS 7E1G1'')]
   \<and> sent (fst (go_handler castle_lib castle_engine (replicate 6 Timeout)))
       = sent castle_engine @ [(''SWL'', ''SWL CALLSIGN JS8CHESS 7E1H1''),
                               (''SWL'', ''SWL CALLSIGN JS8CHESS 7E1G1''),
                               (''SWL'', ''SWL CALLSIGN JS8CHESS 7E1G1'')]
   \<and> observe (go_handler castle_lib castle_engine (replicate 6 Timeout))
       = (Done, ''bestmove 0000'', Some (castle_line @ [''e1g1'']))"
  by code_simp

text \<open>
  C10. A NewProposal that arrives while the engine state is GameActive is ignored: the
  radio callback and the proposal handler return the controller as it was, so the engine
  state, the session, the position cache and the inbound queue are unchanged, nothing is
  handed to the bridge and nothing is written to the UCI output.
\<close>

theorem new_proposal_ignored_when_active:
  assumes "state e = GAME_ACTIVE"
    and "parse_message text (local_callsign (cfg e)) (remote_callsign (cfg e)) from_c = Some msg"
    and "msg_type msg = NEW_PROPOSAL"
  shows "handle_new_proposal now e msg = e \<and> on_radio_message lib now e from_c to_c text = e"
  using assms by (simp add: handle_new_proposal_def on_radio_message_def)

theorem new_proposal_ignored_when_active_witness:
  "state active_engine = GAME_ACTIVE
   \<and> on_radio_message book_lib noon active_engine ''SWL'' ''CALLSIGN'' ''SWL CALLSIGN JS8CHESS NEW B''
       = active_engine"
proof -
  have s: "state active_engine = GAME_ACTIVE"
    by code_simp
  have c: "local_callsign (cfg active_engine) = ''CALLSIGN''
           \<and> remote_callsign (cfg active_engine) = ''SWL''"
    by code_simp
  have p: "parse_message ''SWL CALLSIGN JS8CHESS NEW B'' (local_callsign (cfg active_engine))
             (remote_callsign (cfg active_engine)) ''SWL''
           = Some ((ota ''SWL'' ''CALLSIGN'' NEW_PROPOSAL)\<lparr>color := Some ''B''\<rparr>)"
    unfolding c [THEN conjunct1] c [THEN conjunct2] by code_simp
  have t: "msg_type ((ota ''SWL'' ''CALLSIGN'' NEW_PROPOSAL)\<lparr>color := Some ''B''\<rparr>)
           = NEW_PROPOSAL"
    by (simp add: ota_def)
  from new_proposal_ignored_when_active [OF s p t] s show ?thesis by simp
qed

end
